theory Spec2Isabelle
  imports
    Main
    "HOL-Library.AList"
    "HOL-Library.Char_ord"
    "HOL-Library.List_Lexorder"
begin

section \<open>JavaScript helpers\<close>

text \<open>
  Strings are character lists. \<open>String.prototype.startsWith\<close> and the truthiness of a
  string (only the empty string is falsy) are the two string operations the theme module uses.
\<close>

definition startsWith :: "string \<Rightarrow> string \<Rightarrow> bool" where
  "startsWith s p = (take (length p) s = p)"

definition truthy :: "string \<Rightarrow> bool" where
  "truthy s = (s \<noteq> [])"

text \<open>\<open>a || b\<close> on an optional string: an absent or empty \<open>a\<close> gives \<open>b\<close>.\<close>

definition orElse :: "string option \<Rightarrow> string \<Rightarrow> string" where
  "orElse a b = (case a of None \<Rightarrow> b | Some x \<Rightarrow> if truthy x then x else b)"

section \<open>Theme system: data\<close>

text \<open>\<open>BaseTheme\<close> and the groups of \<open>themeDefinitions\<close> (the icon of a group plays no role).\<close>

record BaseTheme =
  base_id :: string
  base_backgroundColor :: string
  base_mainColor :: string
  base_secondaryColor :: string
  base_wallpaperId :: "string option"

record BaseThemeGroup =
  group_name :: string
  group_isLight :: bool
  group_themes :: "BaseTheme list"

text \<open>\<open>interface Theme\<close>.\<close>

record Theme =
  theme_id :: string
  backgroundColor :: string
  cardColor :: string
  borderColor :: string
  mainColor :: string
  mainColorAccent :: string
  secondaryColor :: string
  secondaryColorAccent :: string

record ThemeGroup =
  tg_name :: string
  tg_themes :: "Theme list"

text \<open>The argument of \<open>buildThemeFromTemplate\<close>: a template of the custom theme store.\<close>

record ThemeTemplate =
  tpl_id :: string
  tpl_backgroundColor :: string
  tpl_cardColor :: string
  tpl_borderColor :: string
  tpl_mainColor :: string
  tpl_secondaryColor :: string

text \<open>
  The object \<open>effectiveTheme\<close> of \<open>applyTheme\<close>: the seven colours that become CSS
  variables (it has no id).
\<close>

record ThemeVariables =
  var_backgroundColor :: string
  var_cardColor :: string
  var_borderColor :: string
  var_mainColor :: string
  var_mainColorAccent :: string
  var_secondaryColor :: string
  var_secondaryColorAccent :: string

text \<open>An entry of the wallpaper registry, as \<open>registerCustomWallpaper\<close> receives it.\<close>

record Wallpaper =
  wp_id :: string
  wp_name :: string
  wp_url :: string
  wp_urlWebp :: string

text \<open>A wallpaper of the custom wallpaper store.\<close>

record CustomWallpaper =
  cw_id :: string
  cw_name :: string
  cw_thumbnailDataUrl :: string

text \<open>
  The modules \<open>themeDefinitions\<close>, \<open>themeColors\<close> and \<open>wallpapers\<close> are imported by
  the theme module and are not part of the sources at hand. They are parameters of the model:
  the table of base themes, the three colour generators, and the three operations of the
  wallpaper registry over a registry state of some type \<open>'r\<close>.
\<close>

record 'r theme_env =
  baseThemeSets :: "BaseThemeGroup list"
  generateCardColor :: "string \<Rightarrow> bool \<Rightarrow> string"
  generateBorderColor :: "string \<Rightarrow> bool \<Rightarrow> string"
  generateAccentColor :: "string \<Rightarrow> string"
  getWallpaperById :: "'r \<Rightarrow> string \<Rightarrow> Wallpaper option"
  registerCustomWallpaper :: "Wallpaper \<Rightarrow> 'r \<Rightarrow> 'r"
  unregisterCustomWallpaper :: "string \<Rightarrow> 'r \<Rightarrow> 'r"

text \<open>The five background properties of \<open>document.body.style\<close> that \<open>applyTheme\<close> assigns.\<close>

record BodyStyle =
  backgroundImage :: string
  backgroundSize :: string
  backgroundPosition :: string
  backgroundRepeat :: string
  backgroundAttachment :: string

text \<open>
  The state the theme module reads and writes.

  A JavaScript \<open>Map\<close> is an object: \<open>_themeMap\<close> holds a reference to it (or \<open>null\<close>), and
  the listener of the custom theme store keeps the reference it captured when it was
  registered. The maps live in \<open>heap\<close>, addressed by natural numbers; a map is an association
  list in insertion order (\<open>Map.set\<close> is \<open>AList.update\<close>, \<open>Map.delete\<close> is
  \<open>AList.delete\<close>, \<open>Map.get\<close> is \<open>map_of\<close>).
\<close>

record 'r theme_state =
  heap :: "nat \<Rightarrow> (string \<times> Theme) list"
  nextRef :: nat
  themeMap_ref :: "nat option"              \<comment> \<open>\<open>_themeMap\<close>\<close>
  customThemesLoaded :: bool                \<comment> \<open>\<open>_customThemesLoaded\<close>\<close>
  themeListener :: "nat option"             \<comment> \<open>listener on the custom theme store, with its captured map\<close>
  wallpaperListener :: bool                 \<comment> \<open>listener on the custom wallpaper store\<close>
  customThemes :: "ThemeTemplate list"      \<comment> \<open>\<open>useCustomThemeStore.getState().themes\<close>\<close>
  wallpapers :: "CustomWallpaper list"      \<comment> \<open>\<open>useCustomWallpaperStore.getState().wallpapers\<close>\<close>
  objectUrls :: "string \<Rightarrow> string option"  \<comment> \<open>\<open>useCustomWallpaperStore.getState().objectUrls\<close>\<close>
  wallpaperRegistry :: 'r
  glassMode :: bool                         \<comment> \<open>the preference written by \<open>setGlassMode\<close>\<close>
  rootStyle :: "string \<Rightarrow> string option"   \<comment> \<open>custom properties of \<open>document.documentElement.style\<close>\<close>
  rootAttributes :: "string \<Rightarrow> string option"
  bodyStyle :: BodyStyle
  console :: "string list"                  \<comment> \<open>messages of \<open>console.error\<close>, oldest first\<close>

section \<open>Theme system: pure functions\<close>

definition PREMIUM_THEME_VARIABLES_backgroundColor :: string where
  "PREMIUM_THEME_VARIABLES_backgroundColor = ''oklch(0% 0 0 / 0.95)''"

definition PREMIUM_THEME_VARIABLES_cardColor :: string where
  "PREMIUM_THEME_VARIABLES_cardColor = ''oklch(20% 0.01 255 / 0.85)''"

definition PREMIUM_THEME_VARIABLES_borderColor :: string where
  "PREMIUM_THEME_VARIABLES_borderColor = ''oklch(30% 0.01 255 / 0.85)''"

definition PREMIUM_THEME_VARIABLES_mainColor :: string where
  "PREMIUM_THEME_VARIABLES_mainColor = ''oklch(100% 0 0)''"

definition PREMIUM_THEME_VARIABLES_secondaryColor :: string where
  "PREMIUM_THEME_VARIABLES_secondaryColor = ''oklch(85% 0 0)''"

definition getPremiumThemeVariables :: "'r theme_env \<Rightarrow> ThemeVariables" where
  "getPremiumThemeVariables env =
     \<lparr> var_backgroundColor = PREMIUM_THEME_VARIABLES_backgroundColor,
       var_cardColor = PREMIUM_THEME_VARIABLES_cardColor,
       var_borderColor = PREMIUM_THEME_VARIABLES_borderColor,
       var_mainColor = PREMIUM_THEME_VARIABLES_mainColor,
       var_mainColorAccent = generateAccentColor env PREMIUM_THEME_VARIABLES_mainColor,
       var_secondaryColor = PREMIUM_THEME_VARIABLES_secondaryColor,
       var_secondaryColorAccent = generateAccentColor env PREMIUM_THEME_VARIABLES_secondaryColor \<rparr>"

definition legacyThemeAliases :: "(string \<times> string) list" where
  "legacyThemeAliases = [(''neon-city-glass'', ''neon-city'')]"

definition resolveThemeId :: "string \<Rightarrow> string" where
  "resolveThemeId themeId =
     (case map_of legacyThemeAliases themeId of Some target \<Rightarrow> target | None \<Rightarrow> themeId)"

text \<open>
  \<open>getThemeDefaultWallpaperId\<close>: the loop over the groups returns the wallpaper id of the
  first group whose theme of that id has a truthy \<open>wallpaperId\<close>.
\<close>

fun findWallpaperId :: "BaseThemeGroup list \<Rightarrow> string \<Rightarrow> string option" where
  "findWallpaperId [] resolvedId = None"
| "findWallpaperId (grp # groups) resolvedId =
     (case find (\<lambda>t. base_id t = resolvedId) (group_themes grp) of
        None \<Rightarrow> findWallpaperId groups resolvedId
      | Some theme \<Rightarrow>
          (case base_wallpaperId theme of
             None \<Rightarrow> findWallpaperId groups resolvedId
           | Some w \<Rightarrow> if truthy w then Some w else findWallpaperId groups resolvedId))"

definition getThemeDefaultWallpaperId :: "'r theme_env \<Rightarrow> string \<Rightarrow> string option" where
  "getThemeDefaultWallpaperId env themeId =
     (let resolvedId = resolveThemeId themeId in
      if startsWith resolvedId ''custom-'' then Some resolvedId
      else findWallpaperId (baseThemeSets env) resolvedId)"

definition buildTheme :: "'r theme_env \<Rightarrow> BaseTheme \<Rightarrow> bool \<Rightarrow> Theme" where
  "buildTheme env base isLight =
     \<lparr> theme_id = base_id base,
       backgroundColor = base_backgroundColor base,
       cardColor = generateCardColor env (base_backgroundColor base) isLight,
       borderColor = generateBorderColor env (base_backgroundColor base) isLight,
       mainColor = base_mainColor base,
       mainColorAccent = generateAccentColor env (base_mainColor base),
       secondaryColor = base_secondaryColor base,
       secondaryColorAccent = generateAccentColor env (base_secondaryColor base) \<rparr>"

definition buildThemeGroup :: "'r theme_env \<Rightarrow> BaseThemeGroup \<Rightarrow> ThemeGroup" where
  "buildThemeGroup env baseGroup =
     \<lparr> tg_name = group_name baseGroup,
       tg_themes = map (\<lambda>theme. buildTheme env theme (group_isLight baseGroup))
                     (group_themes baseGroup) \<rparr>"

definition premiumThemeIds :: "'r theme_env \<Rightarrow> string list" where
  "premiumThemeIds env =
     (case find (\<lambda>grp. startsWith (group_name grp) ''Premium'') (baseThemeSets env) of
        None \<Rightarrow> []
      | Some grp \<Rightarrow> map base_id (group_themes grp))"

definition isPremiumThemeId :: "'r theme_env \<Rightarrow> string \<Rightarrow> bool" where
  "isPremiumThemeId env themeId =
     (let resolved = resolveThemeId themeId in
      resolved \<in> set (premiumThemeIds env) \<or> startsWith resolved ''custom-'')"

definition getModifiedCardColor :: "'r theme_env \<Rightarrow> string \<Rightarrow> string \<Rightarrow> string" where
  "getModifiedCardColor env themeId cardColor' =
     (if isPremiumThemeId env themeId then PREMIUM_THEME_VARIABLES_cardColor else cardColor')"

definition getModifiedBorderColor :: "'r theme_env \<Rightarrow> string \<Rightarrow> string \<Rightarrow> string" where
  "getModifiedBorderColor env themeId borderColor' =
     (if isPremiumThemeId env themeId then PREMIUM_THEME_VARIABLES_borderColor else borderColor')"

definition themeSets :: "'r theme_env \<Rightarrow> ThemeGroup list" where
  "themeSets env = map (buildThemeGroup env) (baseThemeSets env)"

definition buildThemeFromTemplate :: "'r theme_env \<Rightarrow> ThemeTemplate \<Rightarrow> Theme" where
  "buildThemeFromTemplate env template =
     \<lparr> theme_id = tpl_id template,
       backgroundColor = tpl_backgroundColor template,
       cardColor = tpl_cardColor template,
       borderColor = tpl_borderColor template,
       mainColor = tpl_mainColor template,
       mainColorAccent = generateAccentColor env (tpl_mainColor template),
       secondaryColor = tpl_secondaryColor template,
       secondaryColorAccent = generateAccentColor env (tpl_secondaryColor template) \<rparr>"

definition buildCustomWallpaperTheme :: "'r theme_env \<Rightarrow> string \<Rightarrow> Theme" where
  "buildCustomWallpaperTheme env ident =
     buildThemeFromTemplate env
       \<lparr> tpl_id = ident,
         tpl_backgroundColor = ''oklch(0% 0 0 / 0.95)'',
         tpl_cardColor = ''oklch(0% 0 0 / 0.95)'',
         tpl_borderColor = ''oklch(0% 0 0 / 0.95)'',
         tpl_mainColor = ''oklch(100% 0 0)'',
         tpl_secondaryColor = ''oklch(85% 0 0)'' \<rparr>"

section \<open>Theme system: the lookup map and its synchronisation\<close>

text \<open>The contents of a freshly built map: every theme of every built group, in order.\<close>

definition builtinThemeMap :: "'r theme_env \<Rightarrow> (string \<times> Theme) list" where
  "builtinThemeMap env =
     fold (\<lambda>grp m. fold (\<lambda>theme m'. AList.update (theme_id theme) theme m') (tg_themes grp) m)
       (themeSets env) []"

text \<open>\<open>getThemeMap\<close> returns the reference held by \<open>_themeMap\<close>, allocating the map first
  when \<open>_themeMap\<close> is \<open>null\<close>.\<close>

definition getThemeMap :: "'r theme_env \<Rightarrow> 'r theme_state \<Rightarrow> nat \<times> 'r theme_state" where
  "getThemeMap env s =
     (case themeMap_ref s of
        Some r \<Rightarrow> (r, s)
      | None \<Rightarrow>
          (let r = nextRef s in
           (r, s\<lparr> heap := (heap s)(r := builtinThemeMap env),
                  nextRef := Suc r,
                  themeMap_ref := Some r \<rparr>)))"

text \<open>The first loop of \<open>syncCustomWallpapers\<close>, over the keys of the map.\<close>

definition removeStale ::
  "'r theme_env \<Rightarrow> string list \<Rightarrow> string \<Rightarrow> (string \<times> Theme) list \<times> 'r \<Rightarrow> (string \<times> Theme) list \<times> 'r"
where
  "removeStale env currentCustomIds key mr =
     (if startsWith key ''custom-'' \<and> key \<notin> set currentCustomIds
      then (AList.delete key (fst mr), unregisterCustomWallpaper env key (snd mr))
      else mr)"

text \<open>The second loop of \<open>syncCustomWallpapers\<close>, over the wallpapers of the store.\<close>

definition registerOne ::
  "'r theme_env \<Rightarrow> (string \<Rightarrow> string option) \<Rightarrow> CustomWallpaper \<Rightarrow>
     (string \<times> Theme) list \<times> 'r \<Rightarrow> (string \<times> Theme) list \<times> 'r"
where
  "registerOne env urls wp mr =
     (let url = orElse (urls (cw_id wp)) (cw_thumbnailDataUrl wp) in
      (AList.update (cw_id wp) (buildCustomWallpaperTheme env (cw_id wp)) (fst mr),
       registerCustomWallpaper env
         \<lparr> wp_id = cw_id wp, wp_name = cw_name wp, wp_url = url, wp_urlWebp = '''' \<rparr> (snd mr)))"

definition syncCustomWallpapers :: "'r theme_env \<Rightarrow> 'r theme_state \<Rightarrow> 'r theme_state" where
  "syncCustomWallpapers env s =
     (let (r, s1) = getThemeMap env s;
          currentCustomIds = map cw_id (wallpapers s1);
          mr0 = (heap s1 r, wallpaperRegistry s1);
          mr1 = fold (removeStale env currentCustomIds) (map fst (heap s1 r)) mr0;
          mr2 = fold (registerOne env (objectUrls s1)) (wallpapers s1) mr1
      in s1\<lparr> heap := (heap s1)(r := fst mr2), wallpaperRegistry := snd mr2 \<rparr>)"

text \<open>What both the initial load and the listener of the custom theme store do with the
  themes of the store: each is set in the map the reference \<open>r\<close> points to.\<close>

definition setCustomThemes :: "'r theme_env \<Rightarrow> nat \<Rightarrow> 'r theme_state \<Rightarrow> 'r theme_state" where
  "setCustomThemes env r s =
     s\<lparr> heap := (heap s)(r :=
          fold (\<lambda>theme m. AList.update (tpl_id theme) (buildThemeFromTemplate env theme) m)
            (customThemes s) (heap s r)) \<rparr>"

definition ensureCustomThemesLoaded :: "'r theme_env \<Rightarrow> 'r theme_state \<Rightarrow> 'r theme_state" where
  "ensureCustomThemesLoaded env s =
     (if customThemesLoaded s then s
      else
        (let s1 = s\<lparr> customThemesLoaded := True \<rparr>;
             (r, s2) = getThemeMap env s1;
             s3 = setCustomThemes env r s2;
             s4 = s3\<lparr> themeListener := Some r \<rparr>;
             s5 = syncCustomWallpapers env s4
         in s5\<lparr> wallpaperListener := True \<rparr>))"

text \<open>
  The two listeners that \<open>ensureCustomThemesLoaded\<close> registers with \<open>subscribe\<close>: the
  one on the custom theme store writes to the map it captured, and both set \<open>_themeMap\<close>
  to \<open>null\<close>. Before the registration there is no listener and nothing happens.
\<close>

definition onCustomThemeStoreChange :: "'r theme_env \<Rightarrow> 'r theme_state \<Rightarrow> 'r theme_state" where
  "onCustomThemeStoreChange env s =
     (case themeListener s of
        None \<Rightarrow> s
      | Some r \<Rightarrow> (setCustomThemes env r s)\<lparr> themeMap_ref := None \<rparr>)"

definition onCustomWallpaperStoreChange :: "'r theme_env \<Rightarrow> 'r theme_state \<Rightarrow> 'r theme_state" where
  "onCustomWallpaperStoreChange env s =
     (if wallpaperListener s then (syncCustomWallpapers env s)\<lparr> themeMap_ref := None \<rparr> else s)"

text \<open>
  Modelled from the spec: the modules \<open>useCustomThemeStore\<close> and
  \<open>useCustomWallpaperStore\<close> are not part of the sources at hand. They hold the
  collections of custom theme templates and of custom wallpaper descriptors, which the user
  changes through them; a change replaces the collection and notifies the subscribed
  listener.
\<close>

definition setCustomThemeStore ::
  "'r theme_env \<Rightarrow> ThemeTemplate list \<Rightarrow> 'r theme_state \<Rightarrow> 'r theme_state" where
  "setCustomThemeStore env themes s = onCustomThemeStoreChange env (s\<lparr> customThemes := themes \<rparr>)"

definition setCustomWallpaperStore ::
  "'r theme_env \<Rightarrow> CustomWallpaper list \<Rightarrow> (string \<Rightarrow> string option) \<Rightarrow>
     'r theme_state \<Rightarrow> 'r theme_state" where
  "setCustomWallpaperStore env wps urls s =
     onCustomWallpaperStoreChange env (s\<lparr> wallpapers := wps, objectUrls := urls \<rparr>)"

definition getTheme :: "'r theme_env \<Rightarrow> string \<Rightarrow> 'r theme_state \<Rightarrow> Theme option \<times> 'r theme_state" where
  "getTheme env themeId s =
     (let s1 = ensureCustomThemesLoaded env s;
          (r, s2) = getThemeMap env s1
      in (map_of (heap s2 r) (resolveThemeId themeId), s2))"

section \<open>Theme system: applying a theme\<close>

text \<open>
  The writes of \<open>applyTheme\<close>, in the order the function makes them: the preference store,
  the root element's style and attributes, the body's style, the console. A write is
  recorded as it is made: after \<open>setProperty(name, value)\<close> the root style holds
  \<open>value\<close> under \<open>name\<close>.
\<close>

datatype BodyProperty =
  BackgroundImage | BackgroundSize | BackgroundPosition | BackgroundRepeat | BackgroundAttachment

datatype effect =
    ConsoleError string
  | SetGlassMode bool
  | SetProperty string string
  | SetAttribute string string
  | SetBodyStyle BodyProperty string

fun setBodyProperty :: "BodyProperty \<Rightarrow> string \<Rightarrow> BodyStyle \<Rightarrow> BodyStyle" where
  "setBodyProperty BackgroundImage v b = b\<lparr> backgroundImage := v \<rparr>"
| "setBodyProperty BackgroundSize v b = b\<lparr> backgroundSize := v \<rparr>"
| "setBodyProperty BackgroundPosition v b = b\<lparr> backgroundPosition := v \<rparr>"
| "setBodyProperty BackgroundRepeat v b = b\<lparr> backgroundRepeat := v \<rparr>"
| "setBodyProperty BackgroundAttachment v b = b\<lparr> backgroundAttachment := v \<rparr>"

fun perform :: "effect \<Rightarrow> 'r theme_state \<Rightarrow> 'r theme_state" where
  "perform (ConsoleError msg) s = s\<lparr> console := console s @ [msg] \<rparr>"
| "perform (SetGlassMode b) s = s\<lparr> glassMode := b \<rparr>"
| "perform (SetProperty name v) s = s\<lparr> rootStyle := (rootStyle s)(name \<mapsto> v) \<rparr>"
| "perform (SetAttribute name v) s = s\<lparr> rootAttributes := (rootAttributes s)(name \<mapsto> v) \<rparr>"
| "perform (SetBodyStyle p v) s = s\<lparr> bodyStyle := setBodyProperty p v (bodyStyle s) \<rparr>"

definition wallpaperImage :: "Wallpaper \<Rightarrow> string" where
  "wallpaperImage wallpaper =
     (if truthy (wp_urlWebp wallpaper)
      then ''image-set(url('' @ [CHR 0x27] @ wp_url wallpaper @ [CHR 0x27] @
           '') type('' @ [CHR 0x27] @ ''image/avif'' @ [CHR 0x27] @ ''), url('' @ [CHR 0x27] @
           wp_urlWebp wallpaper @ [CHR 0x27] @ '') type('' @ [CHR 0x27] @ ''image/webp'' @
           [CHR 0x27] @ ''))''
      else ''url('' @ [CHR 0x27] @ wp_url wallpaper @ [CHR 0x27] @ '')'')"

definition effectiveTheme :: "'r theme_env \<Rightarrow> string \<Rightarrow> Theme \<Rightarrow> ThemeVariables" where
  "effectiveTheme env resolvedThemeId theme =
     (if isPremiumThemeId env resolvedThemeId
      then getPremiumThemeVariables env
      else \<lparr> var_backgroundColor = backgroundColor theme,
             var_cardColor = getModifiedCardColor env (theme_id theme) (cardColor theme),
             var_borderColor = getModifiedBorderColor env (theme_id theme) (borderColor theme),
             var_mainColor = mainColor theme,
             var_mainColorAccent = mainColorAccent theme,
             var_secondaryColor = secondaryColor theme,
             var_secondaryColorAccent = secondaryColorAccent theme \<rparr>)"

definition variableEffects :: "ThemeVariables \<Rightarrow> effect list" where
  "variableEffects eff =
     [SetProperty ''--background-color'' (var_backgroundColor eff),
      SetProperty ''--card-color'' (var_cardColor eff),
      SetProperty ''--border-color'' (var_borderColor eff),
      SetProperty ''--main-color'' (var_mainColor eff),
      SetProperty ''--main-color-accent'' (var_mainColorAccent eff)] @
     (if truthy (var_secondaryColor eff)
      then [SetProperty ''--secondary-color'' (var_secondaryColor eff),
            SetProperty ''--secondary-color-accent'' (var_secondaryColorAccent eff)]
      else [])"

definition wallpaperEffects :: "'r theme_env \<Rightarrow> 'r \<Rightarrow> string \<Rightarrow> effect list" where
  "wallpaperEffects env registry resolvedThemeId =
     (case getThemeDefaultWallpaperId env resolvedThemeId of
        Some wallpaperId \<Rightarrow>
          (if truthy wallpaperId then
             (case getWallpaperById env registry wallpaperId of
                Some wallpaper \<Rightarrow>
                  [SetBodyStyle BackgroundImage (wallpaperImage wallpaper),
                   SetBodyStyle BackgroundSize ''cover'',
                   SetBodyStyle BackgroundPosition ''center'',
                   SetBodyStyle BackgroundRepeat ''no-repeat'',
                   SetBodyStyle BackgroundAttachment ''fixed'']
              | None \<Rightarrow> [])
           else
             [SetBodyStyle BackgroundImage '''',
              SetBodyStyle BackgroundSize '''',
              SetBodyStyle BackgroundPosition '''',
              SetBodyStyle BackgroundRepeat '''',
              SetBodyStyle BackgroundAttachment ''''])
      | None \<Rightarrow>
          [SetBodyStyle BackgroundImage '''',
           SetBodyStyle BackgroundSize '''',
           SetBodyStyle BackgroundPosition '''',
           SetBodyStyle BackgroundRepeat '''',
           SetBodyStyle BackgroundAttachment ''''])"

definition notFoundMessage :: "string \<Rightarrow> string" where
  "notFoundMessage themeId = ''Theme '' @ [CHR 0x22] @ themeId @ [CHR 0x22] @ '' not found''"

text \<open>The body of \<open>applyTheme\<close> after \<open>ensureCustomThemesLoaded\<close>, as the list of its writes.\<close>

definition applyThemeEffects ::
  "'r theme_env \<Rightarrow> 'r \<Rightarrow> (string \<times> Theme) list \<Rightarrow> string \<Rightarrow> effect list" where
  "applyThemeEffects env registry themeMap themeId =
     (let resolvedThemeId = resolveThemeId themeId in
      case map_of themeMap resolvedThemeId of
        None \<Rightarrow> [ConsoleError (notFoundMessage themeId)]
      | Some theme \<Rightarrow>
          SetGlassMode (isPremiumThemeId env resolvedThemeId) #
          variableEffects (effectiveTheme env resolvedThemeId theme) @
          [SetAttribute ''data-theme'' resolvedThemeId] @
          wallpaperEffects env registry resolvedThemeId)"

definition applyTheme :: "'r theme_env \<Rightarrow> string \<Rightarrow> 'r theme_state \<Rightarrow> 'r theme_state" where
  "applyTheme env themeId s =
     (let s1 = ensureCustomThemesLoaded env s;
          (r, s2) = getThemeMap env s1
      in fold perform (applyThemeEffects env (wallpaperRegistry s2) (heap s2 r) themeId) s2)"

text \<open>The list of writes one call of \<open>applyTheme\<close> makes in state \<open>s\<close>.\<close>

definition applyThemeWrites :: "'r theme_env \<Rightarrow> string \<Rightarrow> 'r theme_state \<Rightarrow> effect list" where
  "applyThemeWrites env themeId s =
     (let s1 = ensureCustomThemesLoaded env s;
          (r, s2) = getThemeMap env s1
      in applyThemeEffects env (wallpaperRegistry s2) (heap s2 r) themeId)"

text \<open>
  The state of the module when it has been loaded and nothing has been called: no map, no
  listener, empty stores, nothing written yet.
\<close>

definition initialState :: "'r \<Rightarrow> 'r theme_state" where
  "initialState registry =
     \<lparr> heap = (\<lambda>_. []), nextRef = 0, themeMap_ref = None, customThemesLoaded = False,
       themeListener = None, wallpaperListener = False,
       customThemes = [], wallpapers = [], objectUrls = (\<lambda>_. None),
       wallpaperRegistry = registry, glassMode = False,
       rootStyle = (\<lambda>_. None), rootAttributes = (\<lambda>_. None),
       bodyStyle = \<lparr> backgroundImage = '''', backgroundSize = '''', backgroundPosition = '''',
                     backgroundRepeat = '''', backgroundAttachment = '''' \<rparr>,
       console = [] \<rparr>"

subsection \<open>A concrete configuration\<close>

text \<open>
  An instance of the parameters, used to run the model on concrete inputs: a registry kept as
  an association list, two groups of base themes, and colour generators that wrap their
  argument.
\<close>

definition exampleMidnight :: BaseTheme where
  "exampleMidnight =
     \<lparr> base_id = ''midnight'', base_backgroundColor = ''oklch(20% 0 0)'',
       base_mainColor = ''oklch(90% 0 0)'', base_secondaryColor = ''oklch(70% 0 0)'',
       base_wallpaperId = None \<rparr>"

definition exampleNeonCity :: BaseTheme where
  "exampleNeonCity =
     \<lparr> base_id = ''neon-city'', base_backgroundColor = ''oklch(10% 0 0)'',
       base_mainColor = ''oklch(80% 0.2 300)'', base_secondaryColor = ''oklch(60% 0.2 200)'',
       base_wallpaperId = Some ''neon-city-skyline'' \<rparr>"

definition exampleEnv :: "(string \<times> Wallpaper) list theme_env" where
  "exampleEnv =
     \<lparr> baseThemeSets =
         [\<lparr> group_name = ''Base'', group_isLight = False, group_themes = [exampleMidnight] \<rparr>,
          \<lparr> group_name = ''Premium (experimental)'', group_isLight = False,
            group_themes = [exampleNeonCity] \<rparr>],
       generateCardColor = (\<lambda>c isLight. (if isLight then ''darker('' else ''lighter('') @ c @ '')''),
       generateBorderColor = (\<lambda>c isLight. (if isLight then ''darkest('' else ''lightest('') @ c @ '')''),
       generateAccentColor = (\<lambda>c. ''accent('' @ c @ '')''),
       getWallpaperById = (\<lambda>registry ident. map_of registry ident),
       registerCustomWallpaper = (\<lambda>w registry. AList.update (wp_id w) w registry),
       unregisterCustomWallpaper = (\<lambda>ident registry. AList.delete ident registry) \<rparr>"

definition exampleWallpaper :: Wallpaper where
  "exampleWallpaper =
     \<lparr> wp_id = ''neon-city-skyline'', wp_name = ''Neon City'',
       wp_url = ''/wallpapers/neon-city.avif'', wp_urlWebp = ''/wallpapers/neon-city.webp'' \<rparr>"

definition exampleRegistry :: "(string \<times> Wallpaper) list" where
  "exampleRegistry = [(''neon-city-skyline'', exampleWallpaper)]"

text \<open>A template of the custom theme store whose secondary colour is the empty string.\<close>

definition exampleMono :: ThemeTemplate where
  "exampleMono =
     \<lparr> tpl_id = ''mono'', tpl_backgroundColor = ''oklch(15% 0 0)'',
       tpl_cardColor = ''oklch(25% 0 0)'', tpl_borderColor = ''oklch(35% 0 0)'',
       tpl_mainColor = ''oklch(95% 0 0)'', tpl_secondaryColor = '''' \<rparr>"

section \<open>Theme system: invariants and derived notions\<close>

text \<open>
  Modelled from the spec: the removal of a custom theme from its store (module
  \<open>useCustomThemeStore\<close>, not part of the sources at hand) is the change of the store that
  drops every template of the given id.
\<close>

definition removeCustomTheme :: "'r theme_env \<Rightarrow> string \<Rightarrow> 'r theme_state \<Rightarrow> 'r theme_state" where
  "removeCustomTheme env x s =
     setCustomThemeStore env (filter (\<lambda>t. tpl_id t \<noteq> x) (customThemes s)) s"

text \<open>The ids of the built-in themes, and the keys of the map \<open>_themeMap\<close> points to.\<close>

definition builtinThemeIds :: "'r theme_env \<Rightarrow> string list" where
  "builtinThemeIds env = map base_id (concat (map group_themes (baseThemeSets env)))"

definition cacheKeys :: "'r theme_state \<Rightarrow> string list" where
  "cacheKeys s = (case themeMap_ref s of None \<Rightarrow> [] | Some r \<Rightarrow> map fst (heap s r))"

text \<open>
  The test of the first loop of \<open>syncCustomWallpapers\<close>: a key of the map is stale when it
  has the prefix \<open>custom-\<close> and is not the id of a wallpaper of the store.
\<close>

definition staleKey :: "CustomWallpaper list \<Rightarrow> string \<Rightarrow> bool" where
  "staleKey wps key = (startsWith key ''custom-'' \<and> key \<notin> cw_id ` set wps)"

text \<open>
  The map a first call of \<open>ensureCustomThemesLoaded\<close> builds in state \<open>t\<close>: the built-in
  themes, then the templates of the custom theme store, then the synchronisation with the
  custom wallpaper store.
\<close>

definition loadedMap :: "'r theme_env \<Rightarrow> 'r theme_state \<Rightarrow> (string \<times> Theme) list" where
  "loadedMap env t =
     (let m1 = fold (\<lambda>theme m. AList.update (tpl_id theme) (buildThemeFromTemplate env theme) m)
                 (customThemes t) (builtinThemeMap env)
      in fst (fold (registerOne env (objectUrls t)) (wallpapers t)
               (fold (removeStale env (map cw_id (wallpapers t))) (map fst m1)
                  (m1, wallpaperRegistry t))))"

text \<open>
  What holds of the module state between any two calls: every map stores a theme under its
  own id, references point to allocated maps, \<open>_themeMap\<close> is set only once the custom themes
  have been loaded, and the two listeners exist exactly from that moment on.
\<close>

definition keysMatch :: "(string \<times> Theme) list \<Rightarrow> bool" where
  "keysMatch m = list_all (\<lambda>(k, t). theme_id t = k) m"

fun validRef :: "nat option \<Rightarrow> nat \<Rightarrow> bool" where
  "validRef None n = True"
| "validRef (Some r) n = (r < n)"

definition heapOK :: "'r theme_state \<Rightarrow> bool" where
  "heapOK s =
     ((\<forall>r < nextRef s. keysMatch (heap s r)) \<and>
      validRef (themeMap_ref s) (nextRef s) \<and>
      validRef (themeListener s) (nextRef s))"

definition wellFormed :: "'r theme_state \<Rightarrow> bool" where
  "wellFormed s =
     (heapOK s \<and>
      (themeMap_ref s \<noteq> None \<longrightarrow> customThemesLoaded s) \<and>
      (themeListener s \<noteq> None) = customThemesLoaded s \<and>
      wallpaperListener s = customThemesLoaded s)"

text \<open>The seven CSS variables \<open>applyTheme\<close> writes, read back from the root element.\<close>

definition cssVariables :: "'r theme_state \<Rightarrow> string option list" where
  "cssVariables s =
     map (rootStyle s)
       [''--background-color'', ''--card-color'', ''--border-color'', ''--main-color'',
        ''--main-color-accent'', ''--secondary-color'', ''--secondary-color-accent'']"

text \<open>The two values \<open>applyTheme\<close> gives the body's background properties.\<close>

definition clearedBodyStyle :: BodyStyle where
  "clearedBodyStyle =
     \<lparr> backgroundImage = '''', backgroundSize = '''', backgroundPosition = '''',
       backgroundRepeat = '''', backgroundAttachment = '''' \<rparr>"

definition wallpaperBodyStyle :: "Wallpaper \<Rightarrow> BodyStyle" where
  "wallpaperBodyStyle wallpaper =
     \<lparr> backgroundImage = wallpaperImage wallpaper, backgroundSize = ''cover'',
       backgroundPosition = ''center'', backgroundRepeat = ''no-repeat'',
       backgroundAttachment = ''fixed'' \<rparr>"

fun isGlassWrite :: "effect \<Rightarrow> bool" where
  "isGlassWrite (SetGlassMode b) = True"
| "isGlassWrite _ = False"

fun isBodyWrite :: "effect \<Rightarrow> bool" where
  "isBodyWrite (SetBodyStyle p v) = True"
| "isBodyWrite _ = False"

text \<open>
  Two states of the concrete configuration: the custom theme store holds the template
  \<open>exampleMono\<close> before anything was looked up, and the same after a first lookup.
\<close>

definition monoState :: "(string \<times> Wallpaper) list theme_state" where
  "monoState = setCustomThemeStore exampleEnv [exampleMono] (initialState [])"

definition monoLoaded :: "(string \<times> Wallpaper) list theme_state" where
  "monoLoaded = snd (getTheme exampleEnv ''mono'' monoState)"

text \<open>
  A custom theme stored under the id of the built-in theme \<open>midnight\<close>, and the state after
  it has been looked up.
\<close>

definition exampleShadow :: ThemeTemplate where
  "exampleShadow = exampleMono\<lparr> tpl_id := ''midnight'' \<rparr>"

definition shadowLoaded :: "(string \<times> Wallpaper) list theme_state" where
  "shadowLoaded =
     snd (getTheme exampleEnv ''midnight''
            (setCustomThemeStore exampleEnv [exampleShadow] (initialState [])))"

text \<open>
  A wallpaper of the custom wallpaper store, and the state in which the stores hold it and
  \<open>exampleMono\<close> and a first lookup has been made.
\<close>

definition exampleCustomWallpaper :: CustomWallpaper where
  "exampleCustomWallpaper =
     \<lparr> cw_id = ''custom-a'', cw_name = ''Alps'', cw_thumbnailDataUrl = ''data:image/webp;base64,AAAA'' \<rparr>"

definition wallpaperLoaded :: "(string \<times> Wallpaper) list theme_state" where
  "wallpaperLoaded =
     snd (getTheme exampleEnv ''mono''
            (setCustomWallpaperStore exampleEnv [exampleCustomWallpaper] (\<lambda>_. None) monoState))"

section \<open>Streak grid: dates\<close>

text \<open>
  Modelled from the spec: \<open>formatDate\<close> belongs to the module \<open>streakCalculations\<close>, which
  is not part of the sources at hand. A visit date is a calendar date written as the canonical
  ISO string \<open>YYYY-MM-DD\<close>. A calendar date is a triple of year, month (1 to 12) and day.
\<close>

definition digitChar :: "nat \<Rightarrow> char" where
  "digitChar n = ''0123456789'' ! (n mod 10)"

text \<open>\<open>digits k n\<close>: the last \<open>k\<close> decimal digits of \<open>n\<close>, most significant first.\<close>

fun digits :: "nat \<Rightarrow> nat \<Rightarrow> string" where
  "digits 0 n = []"
| "digits (Suc k) n = digits k (n div 10) @ [digitChar n]"

definition formatDate :: "nat \<times> nat \<times> nat \<Rightarrow> string" where
  "formatDate ymd =
     (case ymd of (y, m, d) \<Rightarrow> digits 4 y @ ''-'' @ digits 2 m @ ''-'' @ digits 2 d)"

text \<open>Calendar order: one date is strictly before another.\<close>

definition dateBefore :: "nat \<times> nat \<times> nat \<Rightarrow> nat \<times> nat \<times> nat \<Rightarrow> bool" where
  "dateBefore a b =
     (case a of (y, m, d) \<Rightarrow> case b of (y', m', d') \<Rightarrow>
        y < y' \<or> (y = y' \<and> (m < m' \<or> (m = m' \<and> d < d'))))"

text \<open>The Gregorian calendar of the runtime's \<open>Date\<close>: leap years and the lengths of
  the months.\<close>

definition isLeapYear :: "nat \<Rightarrow> bool" where
  "isLeapYear y = (y mod 4 = 0 \<and> (y mod 100 \<noteq> 0 \<or> y mod 400 = 0))"

definition daysInMonth :: "nat \<Rightarrow> nat \<Rightarrow> nat" where
  "daysInMonth y m =
     (if m = 2 then (if isLeapYear y then 29 else 28)
      else if m = 4 \<or> m = 6 \<or> m = 9 \<or> m = 11 then 30 else 31)"

text \<open>
  Modelled from the spec: reading a date string back, the number of its day (days since
  1970-01-01 in the Gregorian calendar, as the \<open>Date\<close> of the runtime counts them), and
  \<open>getDayOfWeek\<close> of \<open>streakCalculations\<close> with Monday as 0 and Sunday as 6. The day
  number is the number of days in the years before, plus the days of the months before in
  the same year, plus the day of the month.
\<close>

definition digitValue :: "char \<Rightarrow> nat" where
  "digitValue c = of_char c - 48"

definition parseNat :: "string \<Rightarrow> nat" where
  "parseNat s = foldl (\<lambda>n c. 10 * n + digitValue c) 0 s"

definition parseDate :: "string \<Rightarrow> nat \<times> nat \<times> nat" where
  "parseDate s = (parseNat (take 4 s), parseNat (take 2 (drop 5 s)), parseNat (take 2 (drop 8 s)))"

definition daysBeforeYear :: "nat \<Rightarrow> nat" where
  "daysBeforeYear y = 365 * y + (y + 3) div 4 + (y + 399) div 400 - (y + 99) div 100"

definition dayOfYear :: "nat \<times> nat \<times> nat \<Rightarrow> nat" where
  "dayOfYear ymd = (case ymd of (y, m, d) \<Rightarrow> sum_list (map (daysInMonth y) [1..<m]) + d)"

definition daysFromCivil :: "nat \<times> nat \<times> nat \<Rightarrow> int" where
  "daysFromCivil ymd =
     (case ymd of (y, m, d) \<Rightarrow> int (daysBeforeYear y + dayOfYear (y, m, d)) - 719529)"

definition dayNumber :: "string \<Rightarrow> int" where
  "dayNumber s = daysFromCivil (parseDate s)"

definition getDayOfWeek :: "string \<Rightarrow> nat" where
  "getDayOfWeek s = nat ((dayNumber s + 3) mod 7)"

section \<open>Streak grid: cells\<close>

text \<open>
  \<open>isFutureDate\<close> compares the date string with \<open>formatDate(new Date())\<close>; the clock is
  outside the program, so today's date string is an argument. \<open>>\<close> on JavaScript strings is
  the lexicographic order of the code units, which for the ASCII characters of a date is the
  lexicographic order of the characters.
\<close>

definition isFutureDate :: "string \<Rightarrow> string \<Rightarrow> bool" where
  "isFutureDate today dateStr = (dateStr > today)"

text \<open>Modelled from the spec: \<open>hasVisit\<close> of \<open>streakCalculations\<close>; a date is visited when
  it is present in \<open>visits\<close>.\<close>

definition hasVisit :: "string list \<Rightarrow> string \<Rightarrow> bool" where
  "hasVisit visits date = (date \<in> set visits)"

text \<open>\<open>clsx\<close> on class names: the non-empty ones, separated by single spaces.\<close>

fun joinClasses :: "string list \<Rightarrow> string" where
  "joinClasses [] = []"
| "joinClasses [c] = c"
| "joinClasses (c # cs) = c @ '' '' @ joinClasses cs"

definition clsx :: "string list \<Rightarrow> string" where
  "clsx cs = joinClasses (filter truthy cs)"

text \<open>A rendered \<open>div\<close>: its class attribute and its title attribute.\<close>

record Element =
  className :: string
  title :: string

datatype CellSize = sm | md | lg

fun sizeClasses :: "CellSize \<Rightarrow> string" where
  "sizeClasses sm = ''w-4 h-4''"
| "sizeClasses md = ''w-5 h-5''"
| "sizeClasses lg = ''w-6 h-6''"

definition futureClass :: string where
  "futureClass = ''border border-(--border-color) bg-transparent opacity-40''"

definition visitedClass :: string where
  "visitedClass = ''bg-(--main-color)''"

definition unvisitedClass :: string where
  "unvisitedClass = ''bg-(--border-color) opacity-25''"

text \<open>The nested conditional that \<open>DayCell\<close> and the cells of \<open>WeekGrid\<close> pass to \<open>clsx\<close>.\<close>

definition cellStyle :: "bool \<Rightarrow> bool \<Rightarrow> string" where
  "cellStyle isFuture isVisited =
     (if isFuture then futureClass else if isVisited then visitedClass else unvisitedClass)"

text \<open>The title: the date, then \<open>(future)\<close> or the check mark U+2713 (three bytes in UTF-8).\<close>

definition cellTitle :: "string \<Rightarrow> bool \<Rightarrow> bool \<Rightarrow> string" where
  "cellTitle date isFuture isVisited =
     date @ (if isFuture then '' (future)''
             else if isVisited then '' '' @ [CHR 0xE2, CHR 0x9C, CHR 0x93]
             else '''')"

definition DayCell :: "string \<Rightarrow> bool \<Rightarrow> bool \<Rightarrow> CellSize \<Rightarrow> Element" where
  "DayCell date isVisited isFuture sz =
     \<lparr> className = clsx [''cursor-default rounded transition-colors'', sizeClasses sz,
                         cellStyle isFuture isVisited],
       title = cellTitle date isFuture isVisited \<rparr>"

text \<open>The inner \<open>div\<close> of a day of \<open>WeekGrid\<close>.\<close>

definition WeekCell :: "string \<Rightarrow> bool \<Rightarrow> bool \<Rightarrow> Element" where
  "WeekCell dayDate isVisited isFuture =
     \<lparr> className = clsx [''h-8 w-8 rounded-md transition-colors'', cellStyle isFuture isVisited],
       title = cellTitle dayDate isFuture isVisited \<rparr>"

section \<open>Streak grid: periods and week columns\<close>



definition EMPTY_WEEK :: "string option list" where
  "EMPTY_WEEK = replicate 7 None"

text \<open>
  \<open>currentWeek[dayOfWeek] = day\<close>: inside the array the element is replaced; beyond its end
  JavaScript extends the array (the holes in between are written \<open>None\<close> here). Reading
  beyond the end gives \<open>undefined\<close>, which the rendering treats like \<open>null\<close>.
\<close>

definition arraySet :: "string option list \<Rightarrow> nat \<Rightarrow> string \<Rightarrow> string option list" where
  "arraySet xs i v =
     (if i < length xs then xs[i := Some v]
      else xs @ replicate (i - length xs) None @ [Some v])"

definition arrayGet :: "string option list \<Rightarrow> nat \<Rightarrow> string option" where
  "arrayGet xs i = (if i < length xs then xs ! i else None)"

text \<open>
  The loop that \<open>MonthGrid\<close> and \<open>YearGrid\<close> both run over their days, on the pair of the
  finished weeks and the current week. \<open>getDayOfWeek\<close> is imported from
  \<open>streakCalculations\<close> and is an argument.
\<close>

fun weekLoop ::
  "(string \<Rightarrow> nat) \<Rightarrow> string list \<Rightarrow> string option list list \<times> string option list \<Rightarrow>
     string option list list \<times> string option list" where
  "weekLoop dow [] acc = acc"
| "weekLoop dow (day # days) (weeks, currentWeek) =
     (let dayOfWeek = dow day;
          currentWeek' = arraySet currentWeek dayOfWeek day
      in if dayOfWeek = 6 then weekLoop dow days (weeks @ [currentWeek'], EMPTY_WEEK)
         else weekLoop dow days (weeks, currentWeek'))"

text \<open>The loop, followed by the push of the last partial week if it has any day.\<close>

definition weekColumns :: "(string \<Rightarrow> nat) \<Rightarrow> string list \<Rightarrow> string option list list" where
  "weekColumns dow days =
     (let (weeks, currentWeek) = weekLoop dow days ([], EMPTY_WEEK)
      in if list_ex (\<lambda>d. d \<noteq> None) currentWeek then weeks @ [currentWeek] else weeks)"

text \<open>
  What the grids render for one entry of a week: a \<open>DayCell\<close> for a day, and the empty
  placeholder (\<open>None\<close>) for \<open>null\<close> (or an empty string).
\<close>

definition renderDay :: "string \<Rightarrow> string list \<Rightarrow> CellSize \<Rightarrow> string option \<Rightarrow> Element option" where
  "renderDay today visits sz day =
     (case day of
        None \<Rightarrow> None
      | Some d \<Rightarrow>
          if truthy d then Some (DayCell d (hasVisit visits d) (isFutureDate today d) sz)
          else None)"

text \<open>\<open>MonthGrid\<close>: one list per week column, seven entries each.\<close>

definition MonthGrid ::
  "string \<Rightarrow> (string \<Rightarrow> nat) \<Rightarrow> string list \<Rightarrow> string list \<Rightarrow> Element option list list" where
  "MonthGrid today dow allMonthDays visits =
     map (\<lambda>week. map (renderDay today visits md) week) (weekColumns dow allMonthDays)"

text \<open>\<open>YearGrid\<close>: one list per day of the week, one entry per week column.\<close>

definition YearGrid ::
  "string \<Rightarrow> (string \<Rightarrow> nat) \<Rightarrow> string list \<Rightarrow> string list \<Rightarrow> Element option list list" where
  "YearGrid today dow allYearDays visits =
     (let allWeeks = weekColumns dow allYearDays
      in map (\<lambda>dayIndex. map (\<lambda>week. renderDay today visits sm (arrayGet week dayIndex)) allWeeks)
           [0..<7])"

text \<open>
  \<open>WeekGrid\<close>: one entry per day of \<open>fullWeekDays\<close>, the seven dates that
  \<open>getFullWeekDays\<close> computes with the \<open>Date\<close> of the runtime.
\<close>

definition WeekGrid :: "string \<Rightarrow> string option list \<Rightarrow> string list \<Rightarrow> Element option list" where
  "WeekGrid today fullWeekDays visits =
     map (\<lambda>dayDate.
            case dayDate of
              None \<Rightarrow> None
            | Some d \<Rightarrow>
                if truthy d then Some (WeekCell d (hasVisit visits d) (isFutureDate today d))
                else None)
       fullWeekDays"

section \<open>Streak statistics\<close>

text \<open>
  Modelled from the spec: \<open>calculateCurrentStreak\<close>, \<open>calculateLongestStreak\<close> and
  \<open>calculateTotalVisits\<close> belong to the module \<open>streakCalculations\<close>, which is not part of
  the sources at hand; \<open>StreakStats\<close> only calls them. The spec: the current streak "counts
  consecutive days ending today (or yesterday if today has no visit yet) with no gap; returns
  0 if no visit today or yesterday"; the longest streak "scans sorted unique dates, finds the
  longest run of consecutive calendar days"; the total is the "count of unique visit dates".
\<close>

text \<open>The number of consecutive visited days that end with day \<open>d\<close>.\<close>

function streakEndingAt :: "int list \<Rightarrow> int \<Rightarrow> nat" where
  "streakEndingAt ds d = (if d \<in> set ds then Suc (streakEndingAt ds (d - 1)) else 0)"
  by pat_completeness auto
termination
proof (relation "measure (\<lambda>(ds, d). card {x \<in> set ds. x \<le> d})")
  show "wf (measure (\<lambda>(ds, d). card {x \<in> set ds. x \<le> d}))" by simp
next
  fix ds :: "int list" and d :: int
  assume "d \<in> set ds"
  then have "{x \<in> set ds. x \<le> d - 1} \<subset> {x \<in> set ds. x \<le> d}" by auto
  then have "card {x \<in> set ds. x \<le> d - 1} < card {x \<in> set ds. x \<le> d}"
    by (intro psubset_card_mono) simp_all
  then show "((ds, d - 1), (ds, d)) \<in> measure (\<lambda>(ds, d). card {x \<in> set ds. x \<le> d})"
    by simp
qed

declare streakEndingAt.simps [simp del]

definition calculateCurrentStreak :: "string \<Rightarrow> string list \<Rightarrow> nat" where
  "calculateCurrentStreak today visits =
     (let ds = map dayNumber visits;
          t = dayNumber today
      in if t \<in> set ds then streakEndingAt ds t
         else if t - 1 \<in> set ds then streakEndingAt ds (t - 1)
         else 0)"

text \<open>The scan over the sorted unique days: the previous day, the length of the run that
  ends there, and the longest run so far.\<close>

fun longestRun :: "int \<Rightarrow> nat \<Rightarrow> nat \<Rightarrow> int list \<Rightarrow> nat" where
  "longestRun prev cur best [] = best"
| "longestRun prev cur best (d # ds) =
     (let cur' = (if d = prev + 1 then Suc cur else 1)
      in longestRun d cur' (max best cur') ds)"

definition calculateLongestStreak :: "string list \<Rightarrow> nat" where
  "calculateLongestStreak visits =
     (case sort (remdups (map dayNumber visits)) of
        [] \<Rightarrow> 0
      | d # ds \<Rightarrow> longestRun d 1 1 ds)"

definition calculateTotalVisits :: "string list \<Rightarrow> nat" where
  "calculateTotalVisits visits = length (remdups visits)"

section \<open>Streak grid: the layout of the week columns\<close>





text \<open>
  The grid in closed form, counting its cells column by column from 0: the days fill the
  cells \<open>off\<close> to \<open>off + length days - 1\<close>, every other cell is empty.
\<close>

definition cellAt :: "nat \<Rightarrow> string list \<Rightarrow> nat \<Rightarrow> string option" where
  "cellAt off days k = (if off \<le> k \<and> k < off + length days then Some (days ! (k - off)) else None)"

definition columnAt :: "nat \<Rightarrow> string list \<Rightarrow> nat \<Rightarrow> string option list" where
  "columnAt off days c = map (\<lambda>r. cellAt off days (7 * c + r)) [0..<7]"


text \<open>Three days around a week's end, for running the grids on concrete dates.\<close>

definition exampleDays :: "string list" where
  "exampleDays = [''2024-02-10'', ''2024-02-11'', ''2024-02-12'']"




section \<open>Theme system: properties\<close>

subsection \<open>What loading the map leaves alone\<close>

text \<open>
  Building the map, synchronising the wallpapers and loading the custom themes touch neither
  the DOM nor the preference store nor the console.
\<close>

lemma getThemeMap_frame:
  "rootStyle (snd (getThemeMap env s)) = rootStyle s"
  "rootAttributes (snd (getThemeMap env s)) = rootAttributes s"
  "bodyStyle (snd (getThemeMap env s)) = bodyStyle s"
  "glassMode (snd (getThemeMap env s)) = glassMode s"
  "console (snd (getThemeMap env s)) = console s"
  by (simp_all add: getThemeMap_def Let_def split: option.splits)

lemma syncCustomWallpapers_frame:
  "rootStyle (syncCustomWallpapers env s) = rootStyle s"
  "rootAttributes (syncCustomWallpapers env s) = rootAttributes s"
  "bodyStyle (syncCustomWallpapers env s) = bodyStyle s"
  "glassMode (syncCustomWallpapers env s) = glassMode s"
  "console (syncCustomWallpapers env s) = console s"
  by (simp_all add: syncCustomWallpapers_def Let_def split_beta getThemeMap_frame)

lemma ensureCustomThemesLoaded_frame:
  "rootStyle (ensureCustomThemesLoaded env s) = rootStyle s"
  "rootAttributes (ensureCustomThemesLoaded env s) = rootAttributes s"
  "bodyStyle (ensureCustomThemesLoaded env s) = bodyStyle s"
  "glassMode (ensureCustomThemesLoaded env s) = glassMode s"
  "console (ensureCustomThemesLoaded env s) = console s"
  by (simp_all add: ensureCustomThemesLoaded_def Let_def split_beta setCustomThemes_def
        syncCustomWallpapers_frame getThemeMap_frame)

lemma getTheme_frame:
  "rootStyle (snd (getTheme env themeId s)) = rootStyle s"
  "rootAttributes (snd (getTheme env themeId s)) = rootAttributes s"
  "bodyStyle (snd (getTheme env themeId s)) = bodyStyle s"
  "glassMode (snd (getTheme env themeId s)) = glassMode s"
  "console (snd (getTheme env themeId s)) = console s"
  by (simp_all add: getTheme_def Let_def split_beta getThemeMap_frame ensureCustomThemesLoaded_frame)

lemma applyTheme_as_writes:
  "applyTheme env themeId s = fold perform (applyThemeWrites env themeId s) (snd (getTheme env themeId s))"
  by (simp add: applyTheme_def applyThemeWrites_def getTheme_def Let_def split_beta)

lemma applyThemeWrites_not_found:
  "fst (getTheme env themeId s) = None \<Longrightarrow>
     applyThemeWrites env themeId s = [ConsoleError (notFoundMessage themeId)]"
  by (simp add: applyThemeWrites_def getTheme_def Let_def split_beta applyThemeEffects_def)

lemma applyThemeWrites_found:
  "fst (getTheme env themeId s) = Some theme \<Longrightarrow>
     applyThemeWrites env themeId s =
       SetGlassMode (isPremiumThemeId env (resolveThemeId themeId)) #
       variableEffects (effectiveTheme env (resolveThemeId themeId) theme) @
       [SetAttribute ''data-theme'' (resolveThemeId themeId)] @
       wallpaperEffects env (wallpaperRegistry (snd (getTheme env themeId s))) (resolveThemeId themeId)"
  by (simp add: applyThemeWrites_def getTheme_def Let_def split_beta applyThemeEffects_def)

subsection \<open>Unknown theme ids\<close>

text \<open>
  Claim C1. When the alias-resolved id is not a key of the theme map (\<open>getTheme\<close> returns
  \<open>undefined\<close>), \<open>applyTheme\<close> makes exactly one write, the \<open>console.error\<close> message, and
  returns: the CSS variables and the attributes of the root element, the background
  properties of the body and the glass mode preference are what they were, and the call
  yields a state (no exception is modelled anywhere in \<open>applyTheme\<close>).
\<close>

theorem applyTheme_unknown_id_noop:
  assumes "fst (getTheme env themeId s) = None"
  shows "applyThemeWrites env themeId s = [ConsoleError (notFoundMessage themeId)]
       \<and> rootStyle (applyTheme env themeId s) = rootStyle s
       \<and> rootAttributes (applyTheme env themeId s) = rootAttributes s
       \<and> bodyStyle (applyTheme env themeId s) = bodyStyle s
       \<and> glassMode (applyTheme env themeId s) = glassMode s
       \<and> console (applyTheme env themeId s) = console s @ [notFoundMessage themeId]"
  using assms
  by (simp add: applyTheme_as_writes applyThemeWrites_not_found getTheme_frame)

subsection \<open>Glass mode\<close>

lemma glassMode_fold_perform:
  "\<not> list_ex isGlassWrite es \<Longrightarrow> glassMode (fold perform es s) = glassMode s"
proof (induction es arbitrary: s)
  case Nil then show ?case by simp
next
  case (Cons e es)
  then show ?case by (cases e) simp_all
qed

lemma variableEffects_no_glass: "\<not> list_ex isGlassWrite (variableEffects eff)"
  by (simp add: variableEffects_def)

lemma wallpaperEffects_no_glass: "\<not> list_ex isGlassWrite (wallpaperEffects env reg i)"
  by (simp add: wallpaperEffects_def split: option.splits)

text \<open>
  Claim C10. When the alias-resolved id is a key of the theme map, the first write of
  \<open>applyTheme\<close> is \<open>setGlassMode\<close> with the value of \<open>isPremiumThemeId\<close> at the
  resolved id; no later write touches the glass mode, so every CSS variable is written after
  it and the preference has that value when \<open>applyTheme\<close> returns.
\<close>

theorem applyTheme_glassMode_first:
  assumes "fst (getTheme env themeId s) = Some theme"
  shows "(\<exists>rest. applyThemeWrites env themeId s =
            SetGlassMode (isPremiumThemeId env (resolveThemeId themeId)) # rest
          \<and> \<not> list_ex isGlassWrite rest)
       \<and> glassMode (applyTheme env themeId s) = isPremiumThemeId env (resolveThemeId themeId)"
proof -
  let ?rest = "variableEffects (effectiveTheme env (resolveThemeId themeId) theme) @
       [SetAttribute ''data-theme'' (resolveThemeId themeId)] @
       wallpaperEffects env (wallpaperRegistry (snd (getTheme env themeId s))) (resolveThemeId themeId)"
  have w: "applyThemeWrites env themeId s =
      SetGlassMode (isPremiumThemeId env (resolveThemeId themeId)) # ?rest"
    using assms by (rule applyThemeWrites_found)
  have ng: "\<not> list_ex isGlassWrite ?rest"
    using variableEffects_no_glass wallpaperEffects_no_glass by simp
  have "glassMode (applyTheme env themeId s) = isPremiumThemeId env (resolveThemeId themeId)"
    unfolding applyTheme_as_writes w
    by (simp only: fold_simps comp_apply glassMode_fold_perform [OF ng] perform.simps) simp
  with w ng show ?thesis by blast
qed

lemma validRef_Suc: "validRef x n \<Longrightarrow> validRef x (Suc n)"
  by (cases x) auto

subsection \<open>The invariant of the module state\<close>

lemma keysMatch_update: "keysMatch m \<Longrightarrow> theme_id t = k \<Longrightarrow> keysMatch (AList.update k t m)"
  by (induction m) (auto simp: keysMatch_def)

lemma keysMatch_delete: "keysMatch m \<Longrightarrow> keysMatch (AList.delete k m)"
  by (induction m) (auto simp: keysMatch_def)

lemma keysMatch_lookup: "keysMatch m \<Longrightarrow> map_of m k = Some t \<Longrightarrow> theme_id t = k"
  by (induction m) (auto simp: keysMatch_def split: if_splits)

lemma keysMatch_fold_themes:
  "keysMatch m \<Longrightarrow> keysMatch (fold (\<lambda>theme m'. AList.update (theme_id theme) theme m') ts m)"
  by (induction ts arbitrary: m) (simp_all add: keysMatch_update)

lemma keysMatch_builtin_aux:
  "keysMatch m \<Longrightarrow>
   keysMatch (fold (\<lambda>grp m. fold (\<lambda>theme m'. AList.update (theme_id theme) theme m') (tg_themes grp) m) gs m)"
  by (induction gs arbitrary: m) (simp_all add: keysMatch_fold_themes)

lemma keysMatch_builtin: "keysMatch (builtinThemeMap env)"
  unfolding builtinThemeMap_def by (rule keysMatch_builtin_aux) (simp add: keysMatch_def)

lemma keysMatch_templates:
  "keysMatch m \<Longrightarrow>
   keysMatch (fold (\<lambda>theme m. AList.update (tpl_id theme) (buildThemeFromTemplate env theme) m) ts m)"
  by (induction ts arbitrary: m) (simp_all add: keysMatch_update buildThemeFromTemplate_def)

lemma keysMatch_removeStale:
  "keysMatch (fst mr) \<Longrightarrow> keysMatch (fst (fold (removeStale env ids) ks mr))"
  by (induction ks arbitrary: mr) (simp_all add: removeStale_def keysMatch_delete)

lemma keysMatch_registerOne:
  "keysMatch (fst mr) \<Longrightarrow> keysMatch (fst (fold (registerOne env urls) ws mr))"
  by (induction ws arbitrary: mr)
     (simp_all add: registerOne_def Let_def keysMatch_update buildCustomWallpaperTheme_def
        buildThemeFromTemplate_def)

lemma wellFormed_initial: "wellFormed (initialState registry)"
  by (simp add: wellFormed_def heapOK_def initialState_def)

lemma getThemeMap_cases:
  obtains r where "themeMap_ref s = Some r" "getThemeMap env s = (r, s)"
  | "themeMap_ref s = None"
      "getThemeMap env s = (nextRef s, s\<lparr> heap := (heap s)(nextRef s := builtinThemeMap env),
                  nextRef := Suc (nextRef s), themeMap_ref := Some (nextRef s) \<rparr>)"
  by (cases "themeMap_ref s") (simp_all add: getThemeMap_def Let_def)

lemma getThemeMap_heapOK:
  assumes "heapOK s" and "getThemeMap env s = (r, s')"
  shows "heapOK s' \<and> r < nextRef s' \<and> themeMap_ref s' = Some r"
proof (cases rule: getThemeMap_cases [of s env])
  case (1 r0)
  with assms show ?thesis by (auto simp: heapOK_def)
next
  case 2
  with assms show ?thesis
    by (auto simp: heapOK_def keysMatch_builtin less_Suc_eq validRef_Suc)
qed

lemma getThemeMap_control:
  assumes "getThemeMap env s = (r, s')"
  shows "customThemesLoaded s' = customThemesLoaded s" "themeListener s' = themeListener s"
    "wallpaperListener s' = wallpaperListener s" "customThemes s' = customThemes s"
    "wallpapers s' = wallpapers s" "objectUrls s' = objectUrls s"
  using assms by (cases rule: getThemeMap_cases [of s env]; auto)+

lemma setCustomThemes_heapOK:
  "heapOK s \<Longrightarrow> heapOK (setCustomThemes env r s)"
  by (auto simp: heapOK_def setCustomThemes_def keysMatch_templates)

lemma syncCustomWallpapers_heapOK:
  assumes "heapOK s"
  shows "heapOK (syncCustomWallpapers env s) \<and> themeMap_ref (syncCustomWallpapers env s) \<noteq> None"
proof -
  obtain r s1 where g: "getThemeMap env s = (r, s1)" by (cases "getThemeMap env s")
  from getThemeMap_heapOK [OF assms g]
  have ok: "heapOK s1" and r: "r < nextRef s1" and ref: "themeMap_ref s1 = Some r" by simp_all
  have km: "keysMatch (heap s1 r)" using ok r by (simp add: heapOK_def)
  show ?thesis
    using ok ref g
    by (auto simp: syncCustomWallpapers_def Let_def heapOK_def
          keysMatch_registerOne keysMatch_removeStale km)
qed

lemma syncCustomWallpapers_control:
  "customThemesLoaded (syncCustomWallpapers env s) = customThemesLoaded s"
  "themeListener (syncCustomWallpapers env s) = themeListener s"
  "wallpaperListener (syncCustomWallpapers env s) = wallpaperListener s"
  "customThemes (syncCustomWallpapers env s) = customThemes s"
  "wallpapers (syncCustomWallpapers env s) = wallpapers s"
  "objectUrls (syncCustomWallpapers env s) = objectUrls s"
  by (cases rule: getThemeMap_cases [of s env]; simp add: syncCustomWallpapers_def Let_def)+

lemma ensureCustomThemesLoaded_wellFormed:
  assumes "wellFormed s"
  shows "wellFormed (ensureCustomThemesLoaded env s) \<and> customThemesLoaded (ensureCustomThemesLoaded env s)"
proof (cases "customThemesLoaded s")
  case True
  with assms show ?thesis by (simp add: ensureCustomThemesLoaded_def)
next
  case False
  let ?s1 = "s\<lparr> customThemesLoaded := True \<rparr>"
  obtain r s2 where g: "getThemeMap env ?s1 = (r, s2)" by (cases "getThemeMap env ?s1")
  let ?s4 = "(setCustomThemes env r s2)\<lparr> themeListener := Some r \<rparr>"
  have e: "ensureCustomThemesLoaded env s = (syncCustomWallpapers env ?s4)\<lparr> wallpaperListener := True \<rparr>"
    using False g by (simp add: ensureCustomThemesLoaded_def Let_def)
  have ok1: "heapOK ?s1" using assms by (simp add: wellFormed_def heapOK_def)
  have nl: "themeListener s = None" using assms False by (simp add: wellFormed_def)
  from getThemeMap_heapOK [OF ok1 g]
  have ok2: "heapOK s2" and r: "r < nextRef s2" by simp_all
  have ok3: "heapOK (setCustomThemes env r s2)" using ok2 by (rule setCustomThemes_heapOK)
  have nr: "nextRef (setCustomThemes env r s2) = nextRef s2" by (simp add: setCustomThemes_def)
  have ok4: "heapOK ?s4" using ok3 r nr by (simp add: heapOK_def)
  from syncCustomWallpapers_heapOK [OF ok4]
  have ok5: "heapOK (syncCustomWallpapers env ?s4)" by simp
  have l2: "customThemesLoaded s2" using getThemeMap_control(1) [OF g] by simp
  have l4: "customThemesLoaded ?s4" using l2 by (simp add: setCustomThemes_def)
  show ?thesis
    unfolding e using ok5 l4 syncCustomWallpapers_control [of env ?s4]
    by (auto simp: wellFormed_def heapOK_def)
qed

subsection \<open>The keys of the theme map\<close>

lemma keys_fold_themes:
  "fst ` set (fold (\<lambda>theme m'. AList.update (theme_id theme) theme m') ts m) =
     fst ` set m \<union> theme_id ` set ts"
  by (induction ts arbitrary: m) (auto simp: dom_update)

lemma keys_builtin_aux:
  "fst ` set (fold (\<lambda>grp m. fold (\<lambda>theme m'. AList.update (theme_id theme) theme m') (tg_themes grp) m) gs m) =
     fst ` set m \<union> theme_id ` (\<Union>g \<in> set gs. set (tg_themes g))"
  by (induction gs arbitrary: m) (auto simp: keys_fold_themes)

lemma keys_builtin: "fst ` set (builtinThemeMap env) = set (builtinThemeIds env)"
proof -
  have "theme_id ` (\<Union>g \<in> set (themeSets env). set (tg_themes g)) =
        base_id ` (\<Union>g \<in> set (baseThemeSets env). set (group_themes g))"
    by (auto simp: themeSets_def buildThemeGroup_def buildTheme_def image_iff) blast
  then show ?thesis
    by (simp add: builtinThemeMap_def keys_builtin_aux builtinThemeIds_def)
qed

lemma keys_templates:
  "fst ` set (fold (\<lambda>theme m. AList.update (tpl_id theme) (buildThemeFromTemplate env theme) m) ts m) =
     fst ` set m \<union> tpl_id ` set ts"
  by (induction ts arbitrary: m) (auto simp: dom_update)

lemma keys_removeStale:
  "fst ` set (fst (fold (removeStale env ids) ks mr)) \<subseteq> fst ` set (fst mr)"
proof (induction ks arbitrary: mr)
  case Nil then show ?case by simp
next
  case (Cons k ks)
  have "fst ` set (fst (removeStale env ids k mr)) \<subseteq> fst ` set (fst mr)"
    using dom_delete_subset [of k "fst mr"] by (simp add: removeStale_def)
  with Cons.IH [of "removeStale env ids k mr"] show ?case by auto
qed

lemma keys_registerOne:
  "fst ` set (fst (fold (registerOne env urls) ws mr)) = fst ` set (fst mr) \<union> cw_id ` set ws"
  by (induction ws arbitrary: mr) (auto simp: registerOne_def Let_def dom_update)

lemma keys_loadedMap:
  "fst ` set (loadedMap env t) \<subseteq>
     set (builtinThemeIds env) \<union> tpl_id ` set (customThemes t) \<union> cw_id ` set (wallpapers t)"
proof -
  let ?m1 = "fold (\<lambda>theme m. AList.update (tpl_id theme) (buildThemeFromTemplate env theme) m)
                 (customThemes t) (builtinThemeMap env)"
  let ?mr1 = "fold (removeStale env (map cw_id (wallpapers t))) (map fst ?m1) (?m1, wallpaperRegistry t)"
  have "fst ` set (fst ?mr1) \<subseteq> fst ` set ?m1"
    using keys_removeStale [of env _ _ "(?m1, wallpaperRegistry t)"] by simp
  also have "\<dots> = set (builtinThemeIds env) \<union> tpl_id ` set (customThemes t)"
    by (simp add: keys_templates keys_builtin)
  finally show ?thesis
    by (auto simp: loadedMap_def Let_def keys_registerOne)
qed

lemma getTheme_fresh_loaded:
  assumes "themeMap_ref t = None" "customThemesLoaded t"
  shows "fst (getTheme env x t) = map_of (builtinThemeMap env) (resolveThemeId x)"
    and "cacheKeys (snd (getTheme env x t)) = map fst (builtinThemeMap env)"
  using assms
  by (simp_all add: getTheme_def ensureCustomThemesLoaded_def getThemeMap_def Let_def cacheKeys_def)

lemma getTheme_fresh_unloaded:
  assumes "themeMap_ref t = None" "\<not> customThemesLoaded t"
  shows "fst (getTheme env x t) = map_of (loadedMap env t) (resolveThemeId x)"
    and "cacheKeys (snd (getTheme env x t)) = map fst (loadedMap env t)"
  using assms
  by (simp_all add: getTheme_def ensureCustomThemesLoaded_def getThemeMap_def Let_def cacheKeys_def
        setCustomThemes_def syncCustomWallpapers_def loadedMap_def)

subsection \<open>Changes of the custom stores\<close>

lemma setCustomThemeStore_props:
  assumes "wellFormed s"
  shows "themeMap_ref (setCustomThemeStore env themes s) = None"
    and "wellFormed (setCustomThemeStore env themes s)"
    and "customThemes (setCustomThemeStore env themes s) = themes"
    and "wallpapers (setCustomThemeStore env themes s) = wallpapers s"
    and "customThemesLoaded (setCustomThemeStore env themes s) = customThemesLoaded s"
  using assms
  by (auto simp: setCustomThemeStore_def onCustomThemeStoreChange_def wellFormed_def heapOK_def
        setCustomThemes_def keysMatch_templates split: option.splits)

lemma setCustomWallpaperStore_props:
  assumes "wellFormed s"
  shows "themeMap_ref (setCustomWallpaperStore env wps urls s) = None"
    and "wellFormed (setCustomWallpaperStore env wps urls s)"
    and "customThemes (setCustomWallpaperStore env wps urls s) = customThemes s"
    and "wallpapers (setCustomWallpaperStore env wps urls s) = wps"
    and "customThemesLoaded (setCustomWallpaperStore env wps urls s) = customThemesLoaded s"
proof -
  let ?s1 = "s\<lparr> wallpapers := wps, objectUrls := urls \<rparr>"
  have ok1: "heapOK ?s1" using assms by (simp add: wellFormed_def heapOK_def)
  note h = syncCustomWallpapers_heapOK [OF ok1] syncCustomWallpapers_control [of _ ?s1]
  show "themeMap_ref (setCustomWallpaperStore env wps urls s) = None"
    using assms
    by (auto simp: setCustomWallpaperStore_def onCustomWallpaperStoreChange_def wellFormed_def)
  show "wellFormed (setCustomWallpaperStore env wps urls s)"
    using assms h
    by (auto simp: setCustomWallpaperStore_def onCustomWallpaperStoreChange_def wellFormed_def
          heapOK_def)
  show "customThemes (setCustomWallpaperStore env wps urls s) = customThemes s"
    using h by (simp add: setCustomWallpaperStore_def onCustomWallpaperStoreChange_def)
  show "wallpapers (setCustomWallpaperStore env wps urls s) = wps"
    using h by (simp add: setCustomWallpaperStore_def onCustomWallpaperStoreChange_def)
  show "customThemesLoaded (setCustomWallpaperStore env wps urls s) = customThemesLoaded s"
    using h by (simp add: setCustomWallpaperStore_def onCustomWallpaperStoreChange_def)
qed

lemma cacheKeys_after_invalidation:
  assumes "themeMap_ref t = None"
  shows "set (cacheKeys (snd (getTheme env y t))) \<subseteq>
     set (builtinThemeIds env) \<union> tpl_id ` set (customThemes t) \<union> cw_id ` set (wallpapers t)"
proof (cases "customThemesLoaded t")
  case True
  from getTheme_fresh_loaded(2) [OF assms True, of env y] show ?thesis
    using keys_builtin [of env] by auto
next
  case False
  from getTheme_fresh_unloaded(2) [OF assms False, of env y] show ?thesis
    using keys_loadedMap [of env t] by auto
qed

lemma lookup_after_invalidation:
  assumes "themeMap_ref t = None"
    and "resolveThemeId x \<notin> set (builtinThemeIds env)"
    and "resolveThemeId x \<notin> tpl_id ` set (customThemes t)"
    and "resolveThemeId x \<notin> cw_id ` set (wallpapers t)"
  shows "fst (getTheme env x t) = None"
proof (cases "customThemesLoaded t")
  case True
  have "resolveThemeId x \<notin> fst ` set (builtinThemeMap env)"
    using assms(2) by (simp add: keys_builtin)
  then show ?thesis
    using getTheme_fresh_loaded(1) [OF assms(1) True, of env x] by (simp add: map_of_eq_None_iff)
next
  case False
  have "resolveThemeId x \<notin> fst ` set (loadedMap env t)"
    using keys_loadedMap [of env t] assms(2-4) by auto
  then show ?thesis
    using getTheme_fresh_unloaded(1) [OF assms(1) False, of env x] by (simp add: map_of_eq_None_iff)
qed

text \<open>
  The first loop of \<open>syncCustomWallpapers\<close> deletes exactly the stale keys, and the second
  adds the ids of the store: on a change of the custom wallpaper store, the map that
  \<open>_themeMap\<close> pointed to has lost its stale entries before it is dropped.
\<close>

lemma keys_delete: "fst ` set (AList.delete k m) = fst ` set m - {k}"
proof -
  have "set (map fst (AList.delete k m)) = set (map fst m) - {k}"
    by (simp only: delete_keys set_removeAll)
  then show ?thesis by simp
qed

lemma keys_removeStale_eq:
  "fst ` set (fst (fold (removeStale env ids) ks mr)) =
     fst ` set (fst mr) - {k \<in> set ks. startsWith k ''custom-'' \<and> k \<notin> set ids}"
proof (induction ks arbitrary: mr)
  case Nil then show ?case by simp
next
  case (Cons k ks)
  have "fst ` set (fst (removeStale env ids k mr)) =
        fst ` set (fst mr) - {j. j = k \<and> startsWith k ''custom-'' \<and> k \<notin> set ids}"
    by (auto simp: removeStale_def keys_delete)
  with Cons.IH [of "removeStale env ids k mr"] show ?case by auto
qed

lemma syncCustomWallpapers_keys:
  assumes "themeMap_ref t = Some r"
  shows "fst ` set (heap (syncCustomWallpapers env t) r) =
     {k \<in> fst ` set (heap t r). \<not> staleKey (wallpapers t) k} \<union> cw_id ` set (wallpapers t)"
  using assms
  by (auto simp: syncCustomWallpapers_def getThemeMap_def Let_def keys_registerOne
        keys_removeStale_eq staleKey_def)

lemma stale_entries_deleted:
  assumes "wellFormed s" "themeMap_ref s = Some r"
  shows "fst ` set (heap (setCustomWallpaperStore env wps urls s) r) =
     {k \<in> fst ` set (heap s r). \<not> staleKey wps k} \<union> cw_id ` set wps"
proof -
  let ?t = "s\<lparr> wallpapers := wps, objectUrls := urls \<rparr>"
  have l: "wallpaperListener s" using assms by (auto simp: wellFormed_def)
  have "heap (setCustomWallpaperStore env wps urls s) r = heap (syncCustomWallpapers env ?t) r"
    using l by (simp add: setCustomWallpaperStore_def onCustomWallpaperStoreChange_def)
  then show ?thesis
    using syncCustomWallpapers_keys [of ?t r env] assms(2) by simp
qed

text \<open>
  Once the custom themes have been loaded, the map that is rebuilt after a change of a custom
  store holds the built-in themes only: \<open>ensureCustomThemesLoaded\<close> returns at once, and
  nothing adds the custom entries again.
\<close>

lemma rebuilt_map_after_change:
  assumes "wellFormed s" and "customThemesLoaded s"
  shows "cacheKeys (snd (getTheme env y (setCustomThemeStore env themes s))) =
           map fst (builtinThemeMap env)"
    and "cacheKeys (snd (getTheme env y (setCustomWallpaperStore env wps urls s))) =
           map fst (builtinThemeMap env)"
proof -
  note a = setCustomThemeStore_props [OF assms(1)]
  note b = setCustomWallpaperStore_props [OF assms(1)]
  show "cacheKeys (snd (getTheme env y (setCustomThemeStore env themes s))) =
           map fst (builtinThemeMap env)"
    by (rule getTheme_fresh_loaded(2)) (simp_all add: a assms(2))
  show "cacheKeys (snd (getTheme env y (setCustomWallpaperStore env wps urls s))) =
           map fst (builtinThemeMap env)"
    by (rule getTheme_fresh_loaded(2)) (simp_all add: b assms(2))
qed

text \<open>
  Claim C2 (amended). In every well-formed state, a change of the custom theme store or of
  the custom wallpaper store leaves \<open>_themeMap\<close> at \<open>null\<close>, so the next \<open>getTheme\<close>
  or \<open>applyTheme\<close> rebuilds the map, and the rebuilt map has no key besides the ids of the
  built-in themes and the ids present in the two stores after the change. On a change of the
  custom wallpaper store, the listener first deletes from the map \<open>_themeMap\<close> pointed to
  every stale key (prefix \<open>custom-\<close>, id no longer in the store) and keeps every other
  key. After a custom theme is removed from its store, \<open>getTheme\<close> of its id returns
  \<open>undefined\<close>, provided the alias-resolved id is not the id of a built-in theme, of a
  custom wallpaper or of a custom theme that remains in the store.
\<close>

theorem custom_store_mutation_invalidates_cache:
  assumes "wellFormed s"
  shows "themeMap_ref (setCustomThemeStore env themes s) = None
       \<and> themeMap_ref (setCustomWallpaperStore env wps urls s) = None
       \<and> set (cacheKeys (snd (getTheme env y (setCustomThemeStore env themes s)))) \<subseteq>
           set (builtinThemeIds env) \<union> tpl_id ` set themes \<union> cw_id ` set (wallpapers s)
       \<and> set (cacheKeys (snd (getTheme env y (setCustomWallpaperStore env wps urls s)))) \<subseteq>
           set (builtinThemeIds env) \<union> tpl_id ` set (customThemes s) \<union> cw_id ` set wps
       \<and> (themeMap_ref s = Some r \<longrightarrow>
            fst ` set (heap (setCustomWallpaperStore env wps urls s) r) =
              {k \<in> fst ` set (heap s r). \<not> staleKey wps k} \<union> cw_id ` set wps)
       \<and> (resolveThemeId x \<notin> set (builtinThemeIds env)
            \<and> resolveThemeId x \<notin> cw_id ` set (wallpapers s)
            \<and> resolveThemeId x \<notin> tpl_id ` set (customThemes (removeCustomTheme env x s))
          \<longrightarrow> fst (getTheme env x (removeCustomTheme env x s)) = None)"
proof -
  note a = setCustomThemeStore_props [OF assms]
  note b = setCustomWallpaperStore_props [OF assms]
  have k1: "set (cacheKeys (snd (getTheme env y (setCustomThemeStore env themes s)))) \<subseteq>
           set (builtinThemeIds env) \<union> tpl_id ` set themes \<union> cw_id ` set (wallpapers s)"
    using cacheKeys_after_invalidation [OF a(1)] by (simp add: a)
  have k2: "set (cacheKeys (snd (getTheme env y (setCustomWallpaperStore env wps urls s)))) \<subseteq>
           set (builtinThemeIds env) \<union> tpl_id ` set (customThemes s) \<union> cw_id ` set wps"
    using cacheKeys_after_invalidation [OF b(1)] by (simp add: b)
  have st: "fst ` set (heap (setCustomWallpaperStore env wps urls s) r) =
              {k \<in> fst ` set (heap s r). \<not> staleKey wps k} \<union> cw_id ` set wps"
    if "themeMap_ref s = Some r"
    by (rule stale_entries_deleted [OF assms that])
  let ?s' = "removeCustomTheme env x s"
  have c: "themeMap_ref ?s' = None" "wallpapers ?s' = wallpapers s"
    by (simp_all add: removeCustomTheme_def a)
  have rm: "fst (getTheme env x ?s') = None"
    if "resolveThemeId x \<notin> set (builtinThemeIds env)"
       "resolveThemeId x \<notin> cw_id ` set (wallpapers s)"
       "resolveThemeId x \<notin> tpl_id ` set (customThemes ?s')"
    by (rule lookup_after_invalidation) (use that c in simp_all)
  show ?thesis
    by (intro conjI impI) (simp_all add: a(1) b(1) k1 k2 st rm)
qed

subsection \<open>Applying a known theme\<close>

lemma getTheme_wellFormed:
  assumes "wellFormed s"
  shows "wellFormed (snd (getTheme env x s))"
proof -
  let ?s1 = "ensureCustomThemesLoaded env s"
  obtain r s2 where g: "getThemeMap env ?s1 = (r, s2)" by (cases "getThemeMap env ?s1")
  from ensureCustomThemesLoaded_wellFormed [OF assms, of env]
  have w1: "wellFormed ?s1" and l1: "customThemesLoaded ?s1" by simp_all
  have "heapOK ?s1" using w1 by (simp add: wellFormed_def)
  from getThemeMap_heapOK [OF this g] getThemeMap_control [OF g] w1 l1
  have "wellFormed s2" by (simp add: wellFormed_def)
  then show ?thesis using g by (simp add: getTheme_def Let_def)
qed

lemma perform_control:
  "heap (perform e s) = heap s" "nextRef (perform e s) = nextRef s"
  "themeMap_ref (perform e s) = themeMap_ref s" "customThemesLoaded (perform e s) = customThemesLoaded s"
  "themeListener (perform e s) = themeListener s" "wallpaperListener (perform e s) = wallpaperListener s"
  by (cases e; simp)+

lemma wellFormed_perform: "wellFormed (perform e s) = wellFormed s"
  by (simp add: wellFormed_def heapOK_def perform_control)

lemma wellFormed_fold_perform: "wellFormed (fold perform es s) = wellFormed s"
  by (induction es arbitrary: s) (simp_all add: wellFormed_perform)

lemma applyTheme_wellFormed: "wellFormed s \<Longrightarrow> wellFormed (applyTheme env x s)"
  by (simp add: applyTheme_as_writes wellFormed_fold_perform getTheme_wellFormed)

lemma resolveThemeId_idem: "resolveThemeId (resolveThemeId x) = resolveThemeId x"
  by (simp add: resolveThemeId_def legacyThemeAliases_def)

lemma getTheme_found_id:
  assumes "wellFormed s" and "fst (getTheme env x s) = Some t"
  shows "theme_id t = resolveThemeId x"
proof -
  let ?s1 = "ensureCustomThemesLoaded env s"
  obtain r s2 where g: "getThemeMap env ?s1 = (r, s2)" by (cases "getThemeMap env ?s1")
  from ensureCustomThemesLoaded_wellFormed [OF assms(1), of env]
  have "heapOK ?s1" by (simp add: wellFormed_def)
  from getThemeMap_heapOK [OF this g]
  have "keysMatch (heap s2 r)" by (simp add: heapOK_def)
  moreover have "map_of (heap s2 r) (resolveThemeId x) = Some t"
    using assms(2) g by (simp add: getTheme_def Let_def)
  ultimately show ?thesis by (rule keysMatch_lookup)
qed

lemma rootStyle_wallpaperEffects:
  "rootStyle (fold perform (wallpaperEffects env reg i) s) = rootStyle s"
  by (simp add: wallpaperEffects_def split: option.splits)

lemma bodyStyle_variableEffects:
  "bodyStyle (fold perform (variableEffects eff) s) = bodyStyle s"
  by (simp add: variableEffects_def)

lemma cssVariables_applyTheme:
  assumes "fst (getTheme env themeId s) = Some theme"
  shows "cssVariables (applyTheme env themeId s) =
     (let eff = effectiveTheme env (resolveThemeId themeId) theme in
      map Some [var_backgroundColor eff, var_cardColor eff, var_borderColor eff,
                var_mainColor eff, var_mainColorAccent eff] @
      (if truthy (var_secondaryColor eff)
       then [Some (var_secondaryColor eff), Some (var_secondaryColorAccent eff)]
       else [rootStyle s ''--secondary-color'', rootStyle s ''--secondary-color-accent'']))"
  unfolding applyTheme_as_writes applyThemeWrites_found [OF assms]
  by (simp add: cssVariables_def rootStyle_wallpaperEffects variableEffects_def Let_def
        getTheme_frame)

text \<open>
  Claim C3 (amended). For a premium id, \<open>applyTheme\<close> writes the fixed premium colours and
  their accents to the seven CSS variables, whatever the palette of the theme. For a known id
  that is not premium it writes the theme's own background, card, border and main colours and
  the main accent; the secondary colour and its accent are written when the secondary colour
  is a non-empty string, and keep their previous values when it is empty.
\<close>

theorem applyTheme_presentation_variables:
  assumes "wellFormed s" and "fst (getTheme env themeId s) = Some theme"
  shows "(isPremiumThemeId env (resolveThemeId themeId) \<longrightarrow>
            cssVariables (applyTheme env themeId s) =
              map Some
                [PREMIUM_THEME_VARIABLES_backgroundColor, PREMIUM_THEME_VARIABLES_cardColor,
                 PREMIUM_THEME_VARIABLES_borderColor, PREMIUM_THEME_VARIABLES_mainColor,
                 generateAccentColor env PREMIUM_THEME_VARIABLES_mainColor,
                 PREMIUM_THEME_VARIABLES_secondaryColor,
                 generateAccentColor env PREMIUM_THEME_VARIABLES_secondaryColor])
       \<and> (\<not> isPremiumThemeId env (resolveThemeId themeId) \<and> secondaryColor theme \<noteq> '''' \<longrightarrow>
            cssVariables (applyTheme env themeId s) =
              map Some
                [backgroundColor theme, cardColor theme, borderColor theme, mainColor theme,
                 mainColorAccent theme, secondaryColor theme, secondaryColorAccent theme])
       \<and> (\<not> isPremiumThemeId env (resolveThemeId themeId) \<and> secondaryColor theme = '''' \<longrightarrow>
            cssVariables (applyTheme env themeId s) =
              map Some
                [backgroundColor theme, cardColor theme, borderColor theme, mainColor theme,
                 mainColorAccent theme] @
              [rootStyle s ''--secondary-color'', rootStyle s ''--secondary-color-accent''])"
proof -
  have tid: "theme_id theme = resolveThemeId themeId"
    using assms by (rule getTheme_found_id)
  show ?thesis
    unfolding cssVariables_applyTheme [OF assms(2)]
    by (simp add: effectiveTheme_def getPremiumThemeVariables_def getModifiedCardColor_def
          getModifiedBorderColor_def tid truthy_def Let_def
          PREMIUM_THEME_VARIABLES_secondaryColor_def)
qed

subsection \<open>The wallpaper of the body\<close>

lemma findWallpaperId_truthy: "findWallpaperId gs i = Some w \<Longrightarrow> truthy w"
  by (induction gs) (auto split: option.splits if_splits)

lemma getThemeDefaultWallpaperId_truthy:
  "getThemeDefaultWallpaperId env i = Some w \<Longrightarrow> truthy w"
  by (auto simp: getThemeDefaultWallpaperId_def Let_def startsWith_def truthy_def
        dest: findWallpaperId_truthy split: if_splits)

text \<open>
  Claim C4 (amended). For a known id, \<open>applyTheme\<close> clears the five background properties
  of the body exactly when the resolved theme declares no wallpaper. When it declares one
  that the wallpaper registry knows, the body gets that wallpaper's image (with \<open>cover\<close>,
  \<open>center\<close>, \<open>no-repeat\<close>, \<open>fixed\<close>); when the registry does not know the declared
  wallpaper, the body's properties stay as they were.
\<close>

theorem applyTheme_wallpaper:
  assumes "fst (getTheme env themeId s) = Some theme"
  shows "(case getThemeDefaultWallpaperId env (resolveThemeId themeId) of
            None \<Rightarrow> bodyStyle (applyTheme env themeId s) = clearedBodyStyle
          | Some wallpaperId \<Rightarrow>
              (case getWallpaperById env (wallpaperRegistry (snd (getTheme env themeId s))) wallpaperId of
                 Some wallpaper \<Rightarrow> bodyStyle (applyTheme env themeId s) = wallpaperBodyStyle wallpaper
               | None \<Rightarrow> bodyStyle (applyTheme env themeId s) = bodyStyle s))"
proof -
  have t: "truthy w" if "getThemeDefaultWallpaperId env (resolveThemeId themeId) = Some w" for w
    using that by (rule getThemeDefaultWallpaperId_truthy)
  show ?thesis
    unfolding applyTheme_as_writes applyThemeWrites_found [OF assms]
    by (auto simp: wallpaperEffects_def bodyStyle_variableEffects clearedBodyStyle_def
          wallpaperBodyStyle_def getTheme_frame t split: option.splits)
qed

subsection \<open>Premium ids\<close>

text \<open>
  Claim C6 (amended). \<open>isPremiumThemeId\<close> is true exactly when the alias-resolved id is in
  the static premium set or starts with \<open>custom-\<close>. For every id but the legacy alias
  \<open>neon-city-glass\<close> that is the id itself; the alias is premium exactly when
  \<open>neon-city\<close> is in the premium set.
\<close>

theorem isPremiumThemeId_resolved:
  "isPremiumThemeId env themeId =
     (resolveThemeId themeId \<in> set (premiumThemeIds env) \<or> startsWith (resolveThemeId themeId) ''custom-'')
   \<and> (themeId \<noteq> ''neon-city-glass'' \<longrightarrow>
        isPremiumThemeId env themeId =
          (themeId \<in> set (premiumThemeIds env) \<or> startsWith themeId ''custom-''))
   \<and> isPremiumThemeId env ''neon-city-glass'' = (''neon-city'' \<in> set (premiumThemeIds env))"
  by (simp add: isPremiumThemeId_def Let_def resolveThemeId_def legacyThemeAliases_def startsWith_def)

subsection \<open>The concrete configuration, evaluated\<close>

lemma example_builtinThemeMap:
  "builtinThemeMap exampleEnv =
     [(''midnight'', buildTheme exampleEnv exampleMidnight False),
      (''neon-city'', buildTheme exampleEnv exampleNeonCity False)]"
  by (simp add: builtinThemeMap_def themeSets_def buildThemeGroup_def buildTheme_def exampleEnv_def
        exampleMidnight_def exampleNeonCity_def)

lemma example_loadedMap_initial:
  "loadedMap exampleEnv (initialState registry) = builtinThemeMap exampleEnv"
  by (simp add: loadedMap_def initialState_def example_builtinThemeMap removeStale_def startsWith_def)

lemma example_getTheme_initial:
  "fst (getTheme exampleEnv x (initialState registry)) =
     map_of (builtinThemeMap exampleEnv) (resolveThemeId x)"
proof -
  have "themeMap_ref (initialState registry) = None" "\<not> customThemesLoaded (initialState registry)"
    by (simp_all add: initialState_def)
  from getTheme_fresh_unloaded(1) [OF this] show ?thesis
    by (simp add: example_loadedMap_initial)
qed

lemma example_registry_initial:
  "wallpaperRegistry (snd (getTheme exampleEnv x (initialState registry))) = registry"
  by (simp add: getTheme_def ensureCustomThemesLoaded_def getThemeMap_def Let_def
        setCustomThemes_def syncCustomWallpapers_def initialState_def example_builtinThemeMap
        removeStale_def startsWith_def)

lemma example_premium: "premiumThemeIds exampleEnv = [''neon-city'']"
  by (simp add: premiumThemeIds_def exampleEnv_def startsWith_def exampleNeonCity_def)

text \<open>C1 at an id no theme has: nothing but the console changes.\<close>

theorem applyTheme_unknown_id_noop_witness:
  "fst (getTheme exampleEnv ''sakura'' (initialState [])) = None
   \<and> applyThemeWrites exampleEnv ''sakura'' (initialState []) = [ConsoleError (notFoundMessage ''sakura'')]
   \<and> glassMode (applyTheme exampleEnv ''sakura'' (initialState [])) = False
   \<and> console (applyTheme exampleEnv ''sakura'' (initialState [])) = [notFoundMessage ''sakura'']"
proof -
  have h: "fst (getTheme exampleEnv ''sakura'' (initialState [])) = None"
    by (simp add: example_getTheme_initial example_builtinThemeMap resolveThemeId_def
          legacyThemeAliases_def)
  show ?thesis
    using h applyTheme_unknown_id_noop [OF h] by (simp add: initialState_def)
qed

text \<open>C10 at the legacy alias of a premium theme: the glass mode is switched on.\<close>

theorem applyTheme_glassMode_first_witness:
  "fst (getTheme exampleEnv ''neon-city-glass'' (initialState exampleRegistry)) =
     Some (buildTheme exampleEnv exampleNeonCity False)
   \<and> glassMode (applyTheme exampleEnv ''neon-city-glass'' (initialState exampleRegistry)) = True"
proof -
  have h: "fst (getTheme exampleEnv ''neon-city-glass'' (initialState exampleRegistry)) =
     Some (buildTheme exampleEnv exampleNeonCity False)"
    by (simp add: example_getTheme_initial example_builtinThemeMap resolveThemeId_def
          legacyThemeAliases_def)
  have p: "isPremiumThemeId exampleEnv (resolveThemeId ''neon-city-glass'')"
    by (simp add: isPremiumThemeId_def example_premium resolveThemeId_def legacyThemeAliases_def)
  show ?thesis
    using h p applyTheme_glassMode_first [OF h] by simp
qed

text \<open>C6 at a custom wallpaper id and at a plain built-in id.\<close>

theorem isPremiumThemeId_resolved_witness:
  "''custom-sunset'' \<noteq> ''neon-city-glass''
   \<and> isPremiumThemeId exampleEnv ''custom-sunset''
   \<and> \<not> isPremiumThemeId exampleEnv ''midnight''"
  using isPremiumThemeId_resolved [of exampleEnv "''custom-sunset''"]
        isPremiumThemeId_resolved [of exampleEnv "''midnight''"]
  by (simp add: example_premium startsWith_def resolveThemeId_def legacyThemeAliases_def)

text \<open>
  C6 as it was stated, without alias resolution, fails at the legacy alias: it is premium,
  yet it is neither in the premium set nor prefixed with \<open>custom-\<close>.
\<close>

theorem isPremiumThemeId_alias_counterexample:
  "isPremiumThemeId exampleEnv ''neon-city-glass''
   \<and> ''neon-city-glass'' \<notin> set (premiumThemeIds exampleEnv)
   \<and> \<not> startsWith ''neon-city-glass'' ''custom-''"
  by (simp add: isPremiumThemeId_def example_premium resolveThemeId_def legacyThemeAliases_def
        startsWith_def)

lemma monoState_eval: "monoState = (initialState [])\<lparr> customThemes := [exampleMono] \<rparr>"
  by (simp add: monoState_def setCustomThemeStore_def onCustomThemeStoreChange_def initialState_def)

lemma wellFormed_monoState: "wellFormed monoState"
  unfolding monoState_def by (rule setCustomThemeStore_props(2) [OF wellFormed_initial])

lemma monoLoaded_eval:
  "monoLoaded =
     (initialState [])\<lparr> heap := (\<lambda>_. [])(0 :=
          [(''midnight'', buildTheme exampleEnv exampleMidnight False),
           (''neon-city'', buildTheme exampleEnv exampleNeonCity False),
           (''mono'', buildThemeFromTemplate exampleEnv exampleMono)]),
        nextRef := 1, themeMap_ref := Some 0, customThemesLoaded := True,
        themeListener := Some 0, wallpaperListener := True, customThemes := [exampleMono] \<rparr>"
  by (simp add: monoLoaded_def monoState_eval getTheme_def ensureCustomThemesLoaded_def
        getThemeMap_def Let_def setCustomThemes_def syncCustomWallpapers_def initialState_def
        example_builtinThemeMap removeStale_def startsWith_def exampleMono_def)

lemma mono_found:
  "fst (getTheme exampleEnv ''mono'' monoState) = Some (buildThemeFromTemplate exampleEnv exampleMono)"
  by (simp add: monoState_eval getTheme_def ensureCustomThemesLoaded_def
        getThemeMap_def Let_def setCustomThemes_def syncCustomWallpapers_def initialState_def
        example_builtinThemeMap removeStale_def startsWith_def exampleMono_def
        resolveThemeId_def legacyThemeAliases_def)

lemma mono_found_loaded:
  "fst (getTheme exampleEnv ''mono'' monoLoaded) = Some (buildThemeFromTemplate exampleEnv exampleMono)"
  by (simp add: monoLoaded_eval getTheme_def ensureCustomThemesLoaded_def getThemeMap_def Let_def
        initialState_def resolveThemeId_def legacyThemeAliases_def)

lemma mono_not_premium: "\<not> isPremiumThemeId exampleEnv (resolveThemeId ''mono'')"
  by (simp add: isPremiumThemeId_def example_premium resolveThemeId_def legacyThemeAliases_def
        startsWith_def)

text \<open>
  C3 as it was stated fails for a known, non-premium theme whose secondary colour is the
  empty string: the two secondary variables are not written.
\<close>

theorem applyTheme_secondary_counterexample:
  "fst (getTheme exampleEnv ''mono'' monoState) = Some (buildThemeFromTemplate exampleEnv exampleMono)
   \<and> \<not> isPremiumThemeId exampleEnv (resolveThemeId ''mono'')
   \<and> secondaryColor (buildThemeFromTemplate exampleEnv exampleMono) = ''''
   \<and> rootStyle (applyTheme exampleEnv ''mono'' monoState) ''--secondary-color'' \<noteq>
       Some (secondaryColor (buildThemeFromTemplate exampleEnv exampleMono))
   \<and> rootStyle (applyTheme exampleEnv ''mono'' monoState) ''--secondary-color-accent'' \<noteq>
       Some (secondaryColorAccent (buildThemeFromTemplate exampleEnv exampleMono))"
proof -
  have "cssVariables (applyTheme exampleEnv ''mono'' monoState) ! 5 = None"
    "cssVariables (applyTheme exampleEnv ''mono'' monoState) ! 6 = None"
    unfolding cssVariables_applyTheme [OF mono_found]
    using mono_not_premium
    by (simp_all add: effectiveTheme_def Let_def buildThemeFromTemplate_def exampleMono_def truthy_def
          monoState_eval initialState_def)
  then show ?thesis
    using mono_found mono_not_premium
    by (simp add: cssVariables_def buildThemeFromTemplate_def exampleMono_def)
qed

text \<open>C3 at a premium theme, at a plain theme, and at the theme without secondary colour.\<close>

theorem applyTheme_presentation_variables_witness:
  "cssVariables (applyTheme exampleEnv ''neon-city'' (initialState exampleRegistry)) =
     map Some [''oklch(0% 0 0 / 0.95)'', ''oklch(20% 0.01 255 / 0.85)'', ''oklch(30% 0.01 255 / 0.85)'',
               ''oklch(100% 0 0)'', ''accent(oklch(100% 0 0))'', ''oklch(85% 0 0)'',
               ''accent(oklch(85% 0 0))'']
   \<and> cssVariables (applyTheme exampleEnv ''midnight'' (initialState exampleRegistry)) =
     map Some [''oklch(20% 0 0)'', ''lighter(oklch(20% 0 0))'', ''lightest(oklch(20% 0 0))'',
               ''oklch(90% 0 0)'', ''accent(oklch(90% 0 0))'', ''oklch(70% 0 0)'',
               ''accent(oklch(70% 0 0))'']
   \<and> cssVariables (applyTheme exampleEnv ''mono'' monoState) =
     map Some [''oklch(15% 0 0)'', ''oklch(25% 0 0)'', ''oklch(35% 0 0)'', ''oklch(95% 0 0)'',
               ''accent(oklch(95% 0 0))''] @ [None, None]"
proof -
  have n: "fst (getTheme exampleEnv ''neon-city'' (initialState exampleRegistry)) =
             Some (buildTheme exampleEnv exampleNeonCity False)"
    and m: "fst (getTheme exampleEnv ''midnight'' (initialState exampleRegistry)) =
             Some (buildTheme exampleEnv exampleMidnight False)"
    by (simp_all add: example_getTheme_initial example_builtinThemeMap resolveThemeId_def
          legacyThemeAliases_def)
  have pn: "isPremiumThemeId exampleEnv (resolveThemeId ''neon-city'')"
    and pm: "\<not> isPremiumThemeId exampleEnv (resolveThemeId ''midnight'')"
    by (simp_all add: isPremiumThemeId_def example_premium resolveThemeId_def legacyThemeAliases_def
          startsWith_def)
  show ?thesis
    using applyTheme_presentation_variables [OF wellFormed_initial n]
          applyTheme_presentation_variables [OF wellFormed_initial m]
          applyTheme_presentation_variables [OF wellFormed_monoState mono_found]
          pn pm mono_not_premium
    by (simp add: PREMIUM_THEME_VARIABLES_backgroundColor_def PREMIUM_THEME_VARIABLES_cardColor_def
          PREMIUM_THEME_VARIABLES_borderColor_def PREMIUM_THEME_VARIABLES_mainColor_def
          PREMIUM_THEME_VARIABLES_secondaryColor_def buildTheme_def buildThemeFromTemplate_def
          exampleEnv_def exampleMidnight_def exampleMono_def monoState_eval initialState_def)
qed

lemma example_declared:
  "getThemeDefaultWallpaperId exampleEnv (resolveThemeId ''neon-city'') = Some ''neon-city-skyline''"
  "getThemeDefaultWallpaperId exampleEnv (resolveThemeId ''midnight'') = None"
  by (simp_all add: getThemeDefaultWallpaperId_def resolveThemeId_def legacyThemeAliases_def
        startsWith_def exampleEnv_def exampleNeonCity_def exampleMidnight_def truthy_def)

lemma example_found:
  "fst (getTheme exampleEnv ''neon-city'' (initialState registry)) =
             Some (buildTheme exampleEnv exampleNeonCity False)"
  "fst (getTheme exampleEnv ''midnight'' (initialState registry)) =
             Some (buildTheme exampleEnv exampleMidnight False)"
  by (simp_all add: example_getTheme_initial example_builtinThemeMap resolveThemeId_def
          legacyThemeAliases_def)

lemma example_getWallpaperById: "getWallpaperById exampleEnv registry ident = map_of registry ident"
  by (simp add: exampleEnv_def)

text \<open>C4 at a theme with a registered wallpaper, at a theme without wallpaper, and at a
  theme whose wallpaper the registry does not know.\<close>

theorem applyTheme_wallpaper_witness:
  "bodyStyle (applyTheme exampleEnv ''neon-city'' (initialState exampleRegistry)) =
     wallpaperBodyStyle exampleWallpaper
   \<and> bodyStyle (applyTheme exampleEnv ''midnight'' (initialState exampleRegistry)) = clearedBodyStyle
   \<and> bodyStyle (applyTheme exampleEnv ''neon-city'' (initialState [])) =
       bodyStyle (initialState ([] :: (string \<times> Wallpaper) list))"
  using applyTheme_wallpaper [OF example_found(1) [of exampleRegistry]]
        applyTheme_wallpaper [OF example_found(2) [of exampleRegistry]]
        applyTheme_wallpaper [OF example_found(1) [of "[]"]]
  by (simp add: example_declared example_registry_initial example_getWallpaperById
        exampleRegistry_def)

text \<open>
  C4 as it was stated fails when the declared wallpaper is not in the registry: the theme
  declares a wallpaper, and \<open>applyTheme\<close> writes nothing to the body.
\<close>

theorem applyTheme_wallpaper_counterexample:
  "fst (getTheme exampleEnv ''neon-city'' (initialState [])) =
     Some (buildTheme exampleEnv exampleNeonCity False)
   \<and> getThemeDefaultWallpaperId exampleEnv (resolveThemeId ''neon-city'') = Some ''neon-city-skyline''
   \<and> \<not> list_ex isBodyWrite (applyThemeWrites exampleEnv ''neon-city'' (initialState []))
   \<and> backgroundImage (bodyStyle (applyTheme exampleEnv ''neon-city'' (initialState []))) = ''''"
proof -
  have w: "wallpaperEffects exampleEnv
             (wallpaperRegistry (snd (getTheme exampleEnv ''neon-city'' (initialState []))))
             (resolveThemeId ''neon-city'') = []"
    by (simp add: wallpaperEffects_def example_declared example_registry_initial truthy_def
          example_getWallpaperById)
  have nb: "\<not> list_ex isBodyWrite (applyThemeWrites exampleEnv ''neon-city'' (initialState []))"
    unfolding applyThemeWrites_found [OF example_found(1)] w
    by (simp add: variableEffects_def)
  have "bodyStyle (applyTheme exampleEnv ''neon-city'' (initialState [])) =
       bodyStyle (initialState ([] :: (string \<times> Wallpaper) list))"
    unfolding applyTheme_as_writes applyThemeWrites_found [OF example_found(1)] w
    by (simp add: bodyStyle_variableEffects getTheme_frame)
  then show ?thesis
    using nb example_found(1) [of "[]"] example_declared(1) by (simp add: initialState_def)
qed

lemma example_builtinThemeIds: "builtinThemeIds exampleEnv = [''midnight'', ''neon-city'']"
  by (simp add: builtinThemeIds_def exampleEnv_def exampleMidnight_def exampleNeonCity_def)

lemma shadowLoaded_eval:
  "shadowLoaded =
     (initialState [])\<lparr> heap := (\<lambda>_. [])(0 :=
          [(''midnight'', buildThemeFromTemplate exampleEnv exampleShadow),
           (''neon-city'', buildTheme exampleEnv exampleNeonCity False)]),
        nextRef := 1, themeMap_ref := Some 0, customThemesLoaded := True,
        themeListener := Some 0, wallpaperListener := True, customThemes := [exampleShadow] \<rparr>"
  by (simp add: shadowLoaded_def setCustomThemeStore_def onCustomThemeStoreChange_def
        getTheme_def ensureCustomThemesLoaded_def
        getThemeMap_def Let_def setCustomThemes_def syncCustomWallpapers_def initialState_def
        example_builtinThemeMap removeStale_def startsWith_def exampleShadow_def exampleMono_def)

lemma shadow_removed_eval:
  "removeCustomTheme exampleEnv ''midnight'' shadowLoaded =
     shadowLoaded\<lparr> themeMap_ref := None, customThemes := [] \<rparr>"
  by (simp add: removeCustomTheme_def setCustomThemeStore_def onCustomThemeStoreChange_def
        shadowLoaded_eval initialState_def setCustomThemes_def exampleShadow_def exampleMono_def)

text \<open>
  C2 as it was stated fails for a custom theme stored under the id of a built-in theme: it is
  found before its removal, and after the removal \<open>getTheme\<close> of its id returns the
  built-in theme.
\<close>

theorem removed_theme_found_counterexample:
  "customThemes shadowLoaded = [exampleShadow]
   \<and> tpl_id exampleShadow = ''midnight''
   \<and> fst (getTheme exampleEnv ''midnight'' shadowLoaded) =
       Some (buildThemeFromTemplate exampleEnv exampleShadow)
   \<and> customThemes (removeCustomTheme exampleEnv ''midnight'' shadowLoaded) = []
   \<and> fst (getTheme exampleEnv ''midnight'' (removeCustomTheme exampleEnv ''midnight'' shadowLoaded)) =
       Some (buildTheme exampleEnv exampleMidnight False)"
  by (simp add: shadow_removed_eval)
     (simp add: shadowLoaded_eval getTheme_def ensureCustomThemesLoaded_def getThemeMap_def Let_def
        initialState_def resolveThemeId_def legacyThemeAliases_def example_builtinThemeMap
        exampleShadow_def exampleMono_def)

text \<open>
  The listener of the custom theme store deletes nothing: the map it captured keeps the entry
  of the removed theme, which is out of reach of the lookups because \<open>_themeMap\<close> no longer
  points to that map.
\<close>

lemma removed_theme_left_in_old_map:
  "map_of (heap (removeCustomTheme exampleEnv ''midnight'' shadowLoaded) 0) ''midnight'' =
     Some (buildThemeFromTemplate exampleEnv exampleShadow)"
  by (simp add: shadow_removed_eval) (simp add: shadowLoaded_eval)

lemma example_registerCustomWallpaper:
  "registerCustomWallpaper exampleEnv w registry = AList.update (wp_id w) w registry"
  "unregisterCustomWallpaper exampleEnv ident registry = AList.delete ident registry"
  by (simp_all add: exampleEnv_def)

lemma wallpaperLoaded_eval:
  "wallpaperLoaded =
     (initialState [])\<lparr> heap := (\<lambda>_. [])(0 :=
          [(''midnight'', buildTheme exampleEnv exampleMidnight False),
           (''neon-city'', buildTheme exampleEnv exampleNeonCity False),
           (''mono'', buildThemeFromTemplate exampleEnv exampleMono),
           (''custom-a'', buildCustomWallpaperTheme exampleEnv ''custom-a'')]),
        nextRef := 1, themeMap_ref := Some 0, customThemesLoaded := True,
        themeListener := Some 0, wallpaperListener := True, customThemes := [exampleMono],
        wallpapers := [exampleCustomWallpaper],
        wallpaperRegistry := [(''custom-a'',
           \<lparr> wp_id = ''custom-a'', wp_name = ''Alps'', wp_url = ''data:image/webp;base64,AAAA'',
             wp_urlWebp = [] \<rparr>)] \<rparr>"
  by (simp add: wallpaperLoaded_def monoState_eval setCustomWallpaperStore_def
        onCustomWallpaperStoreChange_def getTheme_def ensureCustomThemesLoaded_def
        getThemeMap_def Let_def setCustomThemes_def syncCustomWallpapers_def initialState_def
        example_builtinThemeMap removeStale_def registerOne_def startsWith_def exampleMono_def
        exampleCustomWallpaper_def orElse_def example_registerCustomWallpaper)

text \<open>
  C2 at a loaded state whose stores hold a custom theme and a custom wallpaper: emptying the
  wallpaper store deletes the wallpaper's key from the map, and the custom theme is found
  before its removal and not after.
\<close>

theorem custom_store_mutation_invalidates_cache_witness:
  "wellFormed wallpaperLoaded
   \<and> themeMap_ref wallpaperLoaded = Some 0
   \<and> map fst (heap wallpaperLoaded 0) = [''midnight'', ''neon-city'', ''mono'', ''custom-a'']
   \<and> staleKey [] ''custom-a''
   \<and> themeMap_ref (setCustomWallpaperStore exampleEnv [] (\<lambda>_. None) wallpaperLoaded) = None
   \<and> fst ` set (heap (setCustomWallpaperStore exampleEnv [] (\<lambda>_. None) wallpaperLoaded) 0) =
       {''midnight'', ''neon-city'', ''mono''}
   \<and> fst (getTheme exampleEnv ''mono'' wallpaperLoaded) =
       Some (buildThemeFromTemplate exampleEnv exampleMono)
   \<and> resolveThemeId ''mono'' \<notin> set (builtinThemeIds exampleEnv)
   \<and> resolveThemeId ''mono'' \<notin> cw_id ` set (wallpapers wallpaperLoaded)
   \<and> resolveThemeId ''mono'' \<notin>
       tpl_id ` set (customThemes (removeCustomTheme exampleEnv ''mono'' wallpaperLoaded))
   \<and> themeMap_ref (removeCustomTheme exampleEnv ''mono'' wallpaperLoaded) = None
   \<and> fst (getTheme exampleEnv ''mono'' (removeCustomTheme exampleEnv ''mono'' wallpaperLoaded)) = None"
proof -
  have wf: "wellFormed wallpaperLoaded"
    unfolding wallpaperLoaded_def
    by (intro getTheme_wellFormed setCustomWallpaperStore_props(2) wellFormed_monoState)
  have r: "themeMap_ref wallpaperLoaded = Some 0"
    and k: "map fst (heap wallpaperLoaded 0) = [''midnight'', ''neon-city'', ''mono'', ''custom-a'']"
    by (simp_all add: wallpaperLoaded_eval)
  have ks: "fst ` set (heap wallpaperLoaded 0) = {''midnight'', ''neon-city'', ''mono'', ''custom-a''}"
    using arg_cong [OF k, of set] by simp
  have f: "fst (getTheme exampleEnv ''mono'' wallpaperLoaded) =
       Some (buildThemeFromTemplate exampleEnv exampleMono)"
    by (simp add: wallpaperLoaded_eval getTheme_def ensureCustomThemesLoaded_def getThemeMap_def
          Let_def initialState_def resolveThemeId_def legacyThemeAliases_def)
  have res: "resolveThemeId ''mono'' = ''mono''"
    by (simp add: resolveThemeId_def legacyThemeAliases_def)
  have rmv: "customThemes (removeCustomTheme exampleEnv ''mono'' wallpaperLoaded) = []"
    using setCustomThemeStore_props(3) [OF wf, of exampleEnv]
    by (simp add: removeCustomTheme_def wallpaperLoaded_eval exampleMono_def)
  have h: "resolveThemeId ''mono'' \<notin> set (builtinThemeIds exampleEnv)"
    "resolveThemeId ''mono'' \<notin> cw_id ` set (wallpapers wallpaperLoaded)"
    "resolveThemeId ''mono'' \<notin>
       tpl_id ` set (customThemes (removeCustomTheme exampleEnv ''mono'' wallpaperLoaded))"
    by (simp_all add: res rmv example_builtinThemeIds)
       (simp add: wallpaperLoaded_eval exampleCustomWallpaper_def)
  have st: "staleKey [] ''custom-a''" "\<not> staleKey [] ''midnight''"
    "\<not> staleKey [] ''neon-city''" "\<not> staleKey [] ''mono''"
    by (simp_all add: staleKey_def startsWith_def)
  have conv: "{k \<in> A. \<not> staleKey [] k} = A - Collect (staleKey [])" for A
    by auto
  note T = custom_store_mutation_invalidates_cache [OF wf, where env = exampleEnv
      and themes = "[]" and wps = "[]" and urls = "\<lambda>_. None" and y = "''mono''" and r = 0
      and x = "''mono''"]
  note t2 = T [THEN conjunct2, THEN conjunct1]
  note t5 = T [THEN conjunct2, THEN conjunct2, THEN conjunct2, THEN conjunct2, THEN conjunct1,
      THEN mp, OF r]
  note t6 = T [THEN conjunct2, THEN conjunct2, THEN conjunct2, THEN conjunct2, THEN conjunct2,
      THEN mp, OF conjI [OF h(1) conjI [OF h(2) h(3)]]]
  have s5: "fst ` set (heap (setCustomWallpaperStore exampleEnv [] (\<lambda>_. None) wallpaperLoaded) 0) =
       {''midnight'', ''neon-city'', ''mono''}"
    unfolding t5 ks conv by (simp add: st insert_Diff_if)
  have tn: "themeMap_ref (removeCustomTheme exampleEnv ''mono'' wallpaperLoaded) = None"
    unfolding removeCustomTheme_def by (rule setCustomThemeStore_props(1) [OF wf])
  show ?thesis
    by (intro conjI) (fact wf r k st(1) t2 s5 f h tn t6)+
qed

section \<open>Streak grid: properties\<close>

subsection \<open>ISO date strings are ordered like the dates\<close>

lemma of_char_digitChar:
  assumes "n < 10"
  shows "of_char (digitChar n) = (48 + n :: nat)"
proof -
  have "of_char (digitChar n) = (map of_char ''0123456789'' ! n :: nat)"
    using assms by (simp only: digitChar_def mod_less nth_map length_Cons list.size)
  also have "map of_char ''0123456789'' = [48..<58 :: nat]"
    by (simp add: upt_rec)
  also have "[48..<58 :: nat] ! n = 48 + n"
    by (rule nth_upt) (use assms in simp)
  finally show ?thesis .
qed

lemma digitChar_mod: "digitChar (n mod 10) = digitChar n"
  by (simp add: digitChar_def)

lemma digitChar_less: "(digitChar a < digitChar b) = (a mod 10 < b mod 10)"
proof -
  have "(digitChar (a mod 10) < digitChar (b mod 10)) = (a mod 10 < b mod 10)"
    by (simp add: less_char_def of_char_digitChar)
  then show ?thesis by (simp add: digitChar_mod)
qed

lemma digitChar_eq: "(digitChar a = digitChar b) = (a mod 10 = b mod 10)"
proof
  assume "digitChar a = digitChar b"
  then have "of_char (digitChar (a mod 10)) = (of_char (digitChar (b mod 10)) :: nat)"
    by (simp add: digitChar_mod)
  then show "a mod 10 = b mod 10" by (simp add: of_char_digitChar)
next
  assume "a mod 10 = b mod 10"
  then show "digitChar a = digitChar b" by (simp add: digitChar_def)
qed

lemma length_digits [simp]: "length (digits k n) = k"
  by (induction k arbitrary: n) simp_all

lemma append_less_same_length:
  fixes xs ys :: "'a::linorder list"
  assumes "length xs = length ys"
  shows "(xs @ us < ys @ vs) = (xs < ys \<or> (xs = ys \<and> us < vs))"
  using assms by (induction xs ys rule: list_induct2) auto

lemma divmod_less:
  "((a::nat) div 10 < b div 10 \<or> (a div 10 = b div 10 \<and> a mod 10 < b mod 10)) = (a < b)"
proof -
  define qa ra qb rb where "qa = a div 10" and "ra = a mod 10" and "qb = b div 10" and "rb = b mod 10"
  have a: "a = 10 * qa + ra" and b: "b = 10 * qb + rb" and r: "ra < 10" "rb < 10"
    by (simp_all add: qa_def ra_def qb_def rb_def)
  have "(qa < qb \<or> (qa = qb \<and> ra < rb)) = (10 * qa + ra < 10 * qb + rb)"
    using r by linarith
  also have "\<dots> = (a < b)"
    by (simp only: a [symmetric] b [symmetric])
  finally show ?thesis
    unfolding qa_def ra_def qb_def rb_def .
qed

lemma divmod_eq: "((a::nat) div 10 = b div 10 \<and> a mod 10 = b mod 10) = (a = b)"
  by (metis div_mult_mod_eq)

lemma digits_order_aux:
  "a < 10 ^ k \<Longrightarrow> b < 10 ^ k \<Longrightarrow>
     (digits k a < digits k b) = (a < b) \<and> (digits k a = digits k b) = (a = b)"
proof (induction k arbitrary: a b)
  case 0
  then show ?case by simp
next
  case (Suc k)
  have ab: "a < 10 ^ k * 10" "b < 10 ^ k * 10"
    using Suc.prems by simp_all
  have d: "a div 10 < 10 ^ k" "b div 10 < 10 ^ k"
    by (rule less_mult_imp_div_less [OF ab(1)]) (rule less_mult_imp_div_less [OF ab(2)])
  note ih = Suc.IH [OF d]
  have l: "(digits (Suc k) a < digits (Suc k) b) =
      (a div 10 < b div 10 \<or> (a div 10 = b div 10 \<and> a mod 10 < b mod 10))"
    by (simp add: append_less_same_length ih digitChar_less)
  have e: "(digits (Suc k) a = digits (Suc k) b) = (a div 10 = b div 10 \<and> a mod 10 = b mod 10)"
    by (simp add: ih digitChar_eq)
  show ?case unfolding l e by (simp add: divmod_less divmod_eq)
qed

lemma digits_order:
  assumes "a < 10 ^ k" "b < 10 ^ k"
  shows "(digits k a < digits k b) = (a < b)" and "(digits k a = digits k b) = (a = b)"
  using digits_order_aux [OF assms] by simp_all

lemma formatDate_less:
  assumes "y < 10000" "m < 100" "d < 100" "y' < 10000" "m' < 100" "d' < 100"
  shows "(formatDate (y, m, d) < formatDate (y', m', d')) = dateBefore (y, m, d) (y', m', d')"
proof -
  have y: "y < 10 ^ 4" "y' < 10 ^ 4" and m: "m < 10 ^ 2" "m' < 10 ^ 2"
    and d: "d < 10 ^ 2" "d' < 10 ^ 2"
    using assms by simp_all
  show ?thesis
    by (simp add: formatDate_def dateBefore_def append_less_same_length
          digits_order [OF y] digits_order [OF m] digits_order [OF d])
qed

subsection \<open>Future cells\<close>

lemma cellStyle_future: "(cellStyle isFuture isVisited = futureClass) = isFuture"
  by (simp add: cellStyle_def futureClass_def visitedClass_def unvisitedClass_def)

lemma DayCell_future_class:
  "(className (DayCell d isVisited isFuture sz) =
      clsx [''cursor-default rounded transition-colors'', sizeClasses sz, futureClass]) = isFuture"
proof -
  have t: "truthy (cellStyle isFuture isVisited)" "truthy futureClass" "truthy (sizeClasses sz)"
    "truthy ''cursor-default rounded transition-colors''"
    by (cases sz; simp add: truthy_def cellStyle_def futureClass_def visitedClass_def unvisitedClass_def)+
  show ?thesis
    using cellStyle_future [of isFuture isVisited]
    by (simp add: DayCell_def clsx_def t)
qed

lemma WeekCell_future_class:
  "(className (WeekCell d isVisited isFuture) =
      clsx [''h-8 w-8 rounded-md transition-colors'', futureClass]) = isFuture"
proof -
  have t: "truthy (cellStyle isFuture isVisited)" "truthy futureClass"
    "truthy ''h-8 w-8 rounded-md transition-colors''"
    by (simp_all add: truthy_def cellStyle_def futureClass_def visitedClass_def unvisitedClass_def)
  show ?thesis
    using cellStyle_future [of isFuture isVisited]
    by (simp add: WeekCell_def clsx_def t)
qed

lemma DayCell_future_ignores_visit:
  "DayCell d isVisited True sz = DayCell d False True sz"
  by (simp add: DayCell_def cellStyle_def cellTitle_def)

lemma WeekCell_future_ignores_visit:
  "WeekCell d isVisited True = WeekCell d False True"
  by (simp add: WeekCell_def cellStyle_def cellTitle_def)

lemma renderDay_Some:
  "d \<noteq> [] \<Longrightarrow> renderDay today visits sz (Some d) = Some (DayCell d (d \<in> set visits) (today < d) sz)"
  by (simp add: renderDay_def truthy_def hasVisit_def isFutureDate_def)

text \<open>
  Claim C7. \<open>isFutureDate\<close> is true exactly when the date string is strictly greater than
  today's date string, and for two canonical ISO strings (four-digit year, two-digit month
  and day) that is exactly when the date is after today in the calendar. In the month grid,
  the year grid and the week grid, every cell that holds a date \<open>d\<close> is rendered with the
  future style exactly when \<open>d\<close> is after today, and a future cell is the same element
  whether or not \<open>d\<close> is in \<open>visits\<close>: the element of an unvisited future day.
\<close>

theorem future_cells:
  "isFutureDate today d = (today < d)
   \<and> (y < 10000 \<and> m < 100 \<and> dd < 100 \<and> y' < 10000 \<and> m' < 100 \<and> dd' < 100 \<longrightarrow>
        isFutureDate (formatDate (y, m, dd)) (formatDate (y', m', dd')) = dateBefore (y, m, dd) (y', m', dd'))
   \<and> (\<forall>c < length (weekColumns dow days). \<forall>r < length (weekColumns dow days ! c).
         weekColumns dow days ! c ! r = Some d \<and> d \<noteq> [] \<longrightarrow>
           (\<exists>el. MonthGrid today dow days visits ! c ! r = Some el
              \<and> (className el = clsx [''cursor-default rounded transition-colors'', sizeClasses md, futureClass])
                  = (today < d)
              \<and> (today < d \<longrightarrow> el = DayCell d False True md)))
   \<and> (\<forall>c < length (weekColumns dow days). \<forall>r < 7.
         arrayGet (weekColumns dow days ! c) r = Some d \<and> d \<noteq> [] \<longrightarrow>
           (\<exists>el. YearGrid today dow days visits ! r ! c = Some el
              \<and> (className el = clsx [''cursor-default rounded transition-colors'', sizeClasses sm, futureClass])
                  = (today < d)
              \<and> (today < d \<longrightarrow> el = DayCell d False True sm)))
   \<and> (\<forall>i < length fullWeekDays.
         fullWeekDays ! i = Some d \<and> d \<noteq> [] \<longrightarrow>
           (\<exists>el. WeekGrid today fullWeekDays visits ! i = Some el
              \<and> (className el = clsx [''h-8 w-8 rounded-md transition-colors'', futureClass]) = (today < d)
              \<and> (today < d \<longrightarrow> el = WeekCell d False True)))"
proof (intro conjI allI impI)
  show "isFutureDate today d = (today < d)" by (simp add: isFutureDate_def)
next
  assume "y < 10000 \<and> m < 100 \<and> dd < 100 \<and> y' < 10000 \<and> m' < 100 \<and> dd' < 100"
  then show "isFutureDate (formatDate (y, m, dd)) (formatDate (y', m', dd')) =
      dateBefore (y, m, dd) (y', m', dd')"
    by (simp add: isFutureDate_def formatDate_less)
next
  fix c r
  assume c: "c < length (weekColumns dow days)" and r: "r < length (weekColumns dow days ! c)"
    and d: "weekColumns dow days ! c ! r = Some d \<and> d \<noteq> []"
  have "MonthGrid today dow days visits ! c ! r = Some (DayCell d (d \<in> set visits) (today < d) md)"
    using c r d by (simp add: MonthGrid_def renderDay_Some)
  then show "\<exists>el. MonthGrid today dow days visits ! c ! r = Some el
              \<and> (className el = clsx [''cursor-default rounded transition-colors'', sizeClasses md, futureClass])
                  = (today < d)
              \<and> (today < d \<longrightarrow> el = DayCell d False True md)"
    using DayCell_future_class [of d "d \<in> set visits" "today < d" md]
      DayCell_future_ignores_visit [of d "d \<in> set visits" md]
    by auto
next
  fix c r
  assume c: "c < length (weekColumns dow days)" and r: "r < (7::nat)"
    and d: "arrayGet (weekColumns dow days ! c) r = Some d \<and> d \<noteq> []"
  have "YearGrid today dow days visits ! r ! c = Some (DayCell d (d \<in> set visits) (today < d) sm)"
    using c r d by (simp add: YearGrid_def Let_def renderDay_Some)
  then show "\<exists>el. YearGrid today dow days visits ! r ! c = Some el
              \<and> (className el = clsx [''cursor-default rounded transition-colors'', sizeClasses sm, futureClass])
                  = (today < d)
              \<and> (today < d \<longrightarrow> el = DayCell d False True sm)"
    using DayCell_future_class [of d "d \<in> set visits" "today < d" sm]
      DayCell_future_ignores_visit [of d "d \<in> set visits" sm]
    by auto
next
  fix i
  assume i: "i < length fullWeekDays" and d: "fullWeekDays ! i = Some d \<and> d \<noteq> []"
  have "WeekGrid today fullWeekDays visits ! i = Some (WeekCell d (d \<in> set visits) (today < d))"
    using i d by (simp add: WeekGrid_def truthy_def hasVisit_def isFutureDate_def)
  then show "\<exists>el. WeekGrid today fullWeekDays visits ! i = Some el
              \<and> (className el = clsx [''h-8 w-8 rounded-md transition-colors'', futureClass]) = (today < d)
              \<and> (today < d \<longrightarrow> el = WeekCell d False True)"
    using WeekCell_future_class [of d "d \<in> set visits" "today < d"]
      WeekCell_future_ignores_visit [of d "d \<in> set visits"]
    by auto
qed

subsection \<open>The week columns in closed form\<close>


lemma length_columnAt [simp]: "length (columnAt off days c) = 7"
  by (simp add: columnAt_def)

lemma nth_columnAt [simp]: "r < 7 \<Longrightarrow> columnAt off days c ! r = cellAt off days (7 * c + r)"
  by (simp add: columnAt_def)
















subsection \<open>The days of a month and of a year are consecutive\<close>


















section \<open>Streak statistics: properties\<close>

lemma streakEndingAt_set:
  "set ds = set ds' \<Longrightarrow> streakEndingAt ds d = streakEndingAt ds' d"
proof (induction ds d rule: streakEndingAt.induct)
  case (1 ds d)
  show ?case
  proof (cases "d \<in> set ds")
    case True
    with "1.prems" have "d \<in> set ds'" by simp
    with True "1.IH" [OF True "1.prems"] show ?thesis
      by (subst streakEndingAt.simps, subst (2) streakEndingAt.simps) simp
  next
    case False
    with "1.prems" have "d \<notin> set ds'" by simp
    with False show ?thesis
      by (subst streakEndingAt.simps, subst (2) streakEndingAt.simps) simp
  qed
qed

lemma longestRun_ge_best: "best \<le> longestRun prev cur best ds"
proof (induction ds arbitrary: prev cur best)
  case Nil then show ?case by simp
next
  case (Cons d ds)
  let ?cur = "if d = prev + 1 then Suc cur else 1"
  have "best \<le> max best ?cur" by simp
  also have "\<dots> \<le> longestRun d ?cur (max best ?cur) ds" by (rule Cons.IH)
  finally show ?case by (simp add: Let_def)
qed

lemma longestRun_covers:
  assumes "sorted (prev # rest)" "distinct (prev # rest)"
    and "set (prev # rest) \<subseteq> set xs"
    and "\<forall>x \<in> set xs. x \<le> prev \<or> x \<in> set rest"
    and "cur = streakEndingAt xs prev" and "cur \<le> best"
  shows "\<forall>x \<in> set (prev # rest). streakEndingAt xs x \<le> longestRun prev cur best rest"
  using assms
proof (induction rest arbitrary: prev cur best)
  case Nil
  then show ?case by simp
next
  case (Cons d ds)
  let ?cur = "if d = prev + 1 then Suc cur else 1"
  let ?best = "max best ?cur"
  have lt: "prev < d" using Cons.prems(1,2) by auto
  have din: "d \<in> set xs" using Cons.prems(3) by simp
  have cur': "?cur = streakEndingAt xs d"
  proof (cases "d = prev + 1")
    case True
    then have "streakEndingAt xs d = Suc (streakEndingAt xs prev)"
      using din by (subst streakEndingAt.simps) simp
    with True Cons.prems(5) show ?thesis by simp
  next
    case False
    have "d - 1 \<notin> set xs"
    proof
      assume a: "d - 1 \<in> set xs"
      from Cons.prems(4) a have "d - 1 \<le> prev \<or> d - 1 \<in> set (d # ds)" by blast
      moreover have "\<not> d - 1 \<le> prev" using lt False by simp
      moreover have "d - 1 \<notin> set (d # ds)" using Cons.prems(1) by auto
      ultimately show False by blast
    qed
    then have "streakEndingAt xs (d - 1) = 0" by (subst streakEndingAt.simps) simp
    then have "streakEndingAt xs d = 1" using din by (subst streakEndingAt.simps) simp
    with False show ?thesis by simp
  qed
  have ih: "\<forall>x \<in> set (d # ds). streakEndingAt xs x \<le> longestRun d ?cur ?best ds"
  proof (rule Cons.IH)
    show "sorted (d # ds)" using Cons.prems(1) by simp
    show "distinct (d # ds)" using Cons.prems(2) by simp
    show "set (d # ds) \<subseteq> set xs" using Cons.prems(3) by simp
    show "\<forall>x \<in> set xs. x \<le> d \<or> x \<in> set ds" using Cons.prems(4) lt by fastforce
    show "?cur = streakEndingAt xs d" by (rule cur')
    show "?cur \<le> ?best" by simp
  qed
  have "streakEndingAt xs prev \<le> longestRun d ?cur ?best ds"
  proof -
    have "streakEndingAt xs prev \<le> ?best" using Cons.prems(5,6) by simp
    also have "\<dots> \<le> longestRun d ?cur ?best ds" by (rule longestRun_ge_best)
    finally show ?thesis .
  qed
  with ih show ?case by (simp add: Let_def)
qed

lemma streak_le_longest:
  assumes "d \<in> set (map dayNumber visits)"
  shows "streakEndingAt (map dayNumber visits) d \<le> calculateLongestStreak visits"
proof -
  let ?ds = "map dayNumber visits"
  let ?xs = "sort (remdups ?ds)"
  have sx: "set ?xs = set ?ds" by simp
  from assms obtain p rest where xs: "?xs = p # rest"
    by (cases ?xs) (use sx in auto)
  have so: "sorted (p # rest)" and di: "distinct (p # rest)"
    using xs [symmetric] by (simp_all del: sorted_wrt.simps distinct.simps)
  have p1: "streakEndingAt ?xs p = 1"
  proof -
    have "p - 1 \<notin> set (p # rest)" using so by auto
    then have "streakEndingAt ?xs (p - 1) = 0" unfolding xs by (subst streakEndingAt.simps) simp
    then show ?thesis unfolding xs by (subst streakEndingAt.simps) simp
  qed
  have "\<forall>x \<in> set (p # rest). streakEndingAt ?xs x \<le> longestRun p 1 1 rest"
  proof (rule longestRun_covers [OF so di])
    show "set (p # rest) \<subseteq> set ?xs" using xs by simp
    show "\<forall>x \<in> set ?xs. x \<le> p \<or> x \<in> set rest" unfolding xs by auto
    show "1 = streakEndingAt ?xs p" using p1 by simp
    show "(1::nat) \<le> 1" by simp
  qed
  moreover have "d \<in> set (p # rest)" using assms sx xs by simp
  moreover have "calculateLongestStreak visits = longestRun p 1 1 rest"
    using xs by (simp add: calculateLongestStreak_def)
  moreover have "streakEndingAt ?ds d = streakEndingAt ?xs d"
    by (rule streakEndingAt_set) simp
  ultimately show ?thesis by auto
qed

text \<open>
  Claim C9. For every list of visit dates and every date of today, the longest streak is at
  least the current streak.
\<close>

theorem longest_streak_ge_current_streak:
  "calculateCurrentStreak today visits \<le> calculateLongestStreak visits"
  by (simp add: calculateCurrentStreak_def Let_def streak_le_longest del: set_map)

section \<open>The grids and the statistics on concrete dates\<close>

lemma dayOfYear_jan: "dayOfYear (y, Suc 0, d) = d"
  by (simp add: dayOfYear_def)

lemma dayOfYear_feb: "dayOfYear (y, 2, d) = 31 + d"
  by (simp add: dayOfYear_def upt_rec) (simp add: daysInMonth_def)

lemma daysBeforeYear_2024: "daysBeforeYear 2024 = 739251"
  by (simp add: daysBeforeYear_def)

lemmas dayNumber_eval =
  dayNumber_def parseDate_def parseNat_def digitValue_def daysFromCivil_def
  daysBeforeYear_2024 dayOfYear_jan dayOfYear_feb

lemma example_rows: "map getDayOfWeek exampleDays = [5, 6, 0]"
  by (simp add: exampleDays_def getDayOfWeek_def dayNumber_eval)

lemma example_weekColumns:
  "weekColumns getDayOfWeek exampleDays =
     [[None, None, None, None, None, Some ''2024-02-10'', Some ''2024-02-11''],
      [Some ''2024-02-12'', None, None, None, None, None, None]]"
proof -
  have r: "getDayOfWeek ''2024-02-10'' = 5" "getDayOfWeek ''2024-02-11'' = 6"
    "getDayOfWeek ''2024-02-12'' = 0"
    using example_rows by (simp_all add: exampleDays_def)
  show ?thesis
    by (simp add: weekColumns_def exampleDays_def r Let_def arraySet_def EMPTY_WEEK_def
          eval_nat_numeral)
qed


text \<open>C7 with today 10 February 2024 and a visit recorded for the 11th: the cell of the 11th
  is the future cell in all three grids.\<close>

theorem future_cells_witness:
  "''2024-02-10'' < ''2024-02-11''
   \<and> ''2024-02-11'' \<in> set [''2024-02-11'']
   \<and> weekColumns getDayOfWeek exampleDays ! 0 ! 6 = Some ''2024-02-11''
   \<and> MonthGrid ''2024-02-10'' getDayOfWeek exampleDays [''2024-02-11''] ! 0 ! 6 =
       Some (DayCell ''2024-02-11'' False True md)
   \<and> YearGrid ''2024-02-10'' getDayOfWeek exampleDays [''2024-02-11''] ! 6 ! 0 =
       Some (DayCell ''2024-02-11'' False True sm)
   \<and> WeekGrid ''2024-02-10'' [Some ''2024-02-10'', Some ''2024-02-11''] [''2024-02-11''] ! 1 =
       Some (WeekCell ''2024-02-11'' False True)
   \<and> isFutureDate (formatDate (2024, 2, 10)) (formatDate (2024, 2, 11))
   \<and> dateBefore (2024, 2, 10) (2024, 2, 11)"
proof -
  note T = future_cells [where today = "''2024-02-10''" and d = "''2024-02-11''"
      and dow = getDayOfWeek and days = exampleDays and visits = "[''2024-02-11'']"
      and fullWeekDays = "[Some ''2024-02-10'', Some ''2024-02-11'']"
      and y = 2024 and m = 2 and dd = 10 and y' = 2024 and m' = 2 and dd' = 11]
  have lt: "''2024-02-10'' < ''2024-02-11''" by (simp add: less_char_def)
  have w: "weekColumns getDayOfWeek exampleDays ! 0 ! 6 = Some ''2024-02-11''"
    "length (weekColumns getDayOfWeek exampleDays) = 2"
    "length (weekColumns getDayOfWeek exampleDays ! 0) = 7"
    "arrayGet (weekColumns getDayOfWeek exampleDays ! 0) 6 = Some ''2024-02-11''"
    by (simp_all add: example_weekColumns arrayGet_def)
  from T have iso: "isFutureDate (formatDate (2024, 2, 10)) (formatDate (2024, 2, 11)) =
      dateBefore (2024, 2, 10) (2024, 2, 11)" by simp
  from T have "\<forall>c < length (weekColumns getDayOfWeek exampleDays).
     \<forall>r < length (weekColumns getDayOfWeek exampleDays ! c).
         weekColumns getDayOfWeek exampleDays ! c ! r = Some ''2024-02-11'' \<and> ''2024-02-11'' \<noteq> [] \<longrightarrow>
           (\<exists>el. MonthGrid ''2024-02-10'' getDayOfWeek exampleDays [''2024-02-11''] ! c ! r = Some el
              \<and> (''2024-02-10'' < ''2024-02-11'' \<longrightarrow> el = DayCell ''2024-02-11'' False True md))"
    by blast
  from this [rule_format, of 0 6]
  have mg: "MonthGrid ''2024-02-10'' getDayOfWeek exampleDays [''2024-02-11''] ! 0 ! 6 =
       Some (DayCell ''2024-02-11'' False True md)"
    using w lt by auto
  from T have "\<forall>c < length (weekColumns getDayOfWeek exampleDays). \<forall>r < 7.
         arrayGet (weekColumns getDayOfWeek exampleDays ! c) r = Some ''2024-02-11'' \<and> ''2024-02-11'' \<noteq> [] \<longrightarrow>
           (\<exists>el. YearGrid ''2024-02-10'' getDayOfWeek exampleDays [''2024-02-11''] ! r ! c = Some el
              \<and> (''2024-02-10'' < ''2024-02-11'' \<longrightarrow> el = DayCell ''2024-02-11'' False True sm))"
    by blast
  from this [rule_format, of 0 6]
  have yg: "YearGrid ''2024-02-10'' getDayOfWeek exampleDays [''2024-02-11''] ! 6 ! 0 =
       Some (DayCell ''2024-02-11'' False True sm)"
    using w lt by auto
  from T have "\<forall>i < length [Some ''2024-02-10'', Some ''2024-02-11''].
         [Some ''2024-02-10'', Some ''2024-02-11''] ! i = Some ''2024-02-11'' \<and> ''2024-02-11'' \<noteq> [] \<longrightarrow>
           (\<exists>el. WeekGrid ''2024-02-10'' [Some ''2024-02-10'', Some ''2024-02-11''] [''2024-02-11''] ! i = Some el
              \<and> (''2024-02-10'' < ''2024-02-11'' \<longrightarrow> el = WeekCell ''2024-02-11'' False True))"
    by blast
  from this [rule_format, of 1]
  have wg: "WeekGrid ''2024-02-10'' [Some ''2024-02-10'', Some ''2024-02-11''] [''2024-02-11''] ! 1 =
       Some (WeekCell ''2024-02-11'' False True)"
    using lt by auto
  have db: "dateBefore (2024, 2, 10) (2024, 2, 11)" by (simp add: dateBefore_def)
  show ?thesis using lt w(1) mg yg wg iso db by simp
qed

text \<open>The examples the spec gives for the streak statistics.\<close>

lemma streak_examples:
  "calculateCurrentStreak ''2024-01-05''
     [''2024-01-01'', ''2024-01-02'', ''2024-01-03'', ''2024-01-04'', ''2024-01-05''] = 5"
  "calculateLongestStreak
     [''2024-01-01'', ''2024-01-02'', ''2024-01-03'', ''2024-01-04'', ''2024-01-05''] = 5"
  "calculateCurrentStreak ''2024-01-05'' [''2024-01-05''] = 1"
  "calculateCurrentStreak ''2024-01-05'' [] = 0"
proof -
  have d: "dayNumber ''2024-01-01'' = 19723" "dayNumber ''2024-01-02'' = 19724"
    "dayNumber ''2024-01-03'' = 19725" "dayNumber ''2024-01-04'' = 19726"
    "dayNumber ''2024-01-05'' = 19727"
    by (simp_all add: dayNumber_eval)
  show "calculateCurrentStreak ''2024-01-05''
     [''2024-01-01'', ''2024-01-02'', ''2024-01-03'', ''2024-01-04'', ''2024-01-05''] = 5"
    by (simp add: calculateCurrentStreak_def d Let_def streakEndingAt.simps)
  show "calculateLongestStreak
     [''2024-01-01'', ''2024-01-02'', ''2024-01-03'', ''2024-01-04'', ''2024-01-05''] = 5"
    by (simp add: calculateLongestStreak_def d Let_def sort_key_simps[symmetric])
  show "calculateCurrentStreak ''2024-01-05'' [''2024-01-05''] = 1"
    by (simp add: calculateCurrentStreak_def d Let_def streakEndingAt.simps)
  show "calculateCurrentStreak ''2024-01-05'' [] = 0"
    by (simp add: calculateCurrentStreak_def Let_def)
qed

end
